theory Spec2Isabelle
  imports Complex_Main "HOL-Library.Word"
begin

section \<open>Numbers, vectors and render targets\<close>

text \<open>
  JavaScript numbers and GLSL floats are modelled as mathematical reals: the
  statements below are about the arithmetic the code writes down, not about
  its rounding.  The one exception is the drop test of the music driver, which
  compares computed averages with exact thresholds: its quotient and its
  difference are rounded to binary64 as the program's are (\<open>round64\<close>).
  A GLSL \<open>vec2\<close> is a pair, \<open>vec3\<close> and \<open>vec4\<close> are datatypes with the
  component selectors the shaders use.
\<close>

type_synonym vec2 = "real \<times> real"

datatype vec3 = Vec3 (v3x: real) (v3y: real) (v3z: real)

datatype vec4 = Vec4 (vx: real) (vy: real) (vz: real) (vw: real)

definition xy :: "vec4 \<Rightarrow> vec2" where
  "xy v = (vx v, vy v)"

definition xyz :: "vec4 \<Rightarrow> vec3" where
  "xyz v = Vec3 (vx v) (vy v) (vz v)"

definition add3 :: "vec3 \<Rightarrow> vec3 \<Rightarrow> vec3" where
  "add3 a b = Vec3 (v3x a + v3x b) (v3y a + v3y b) (v3z a + v3z b)"

definition scale3 :: "real \<Rightarrow> vec3 \<Rightarrow> vec3" where
  "scale3 k a = Vec3 (k * v3x a) (k * v3y a) (k * v3z a)"

definition add4 :: "vec4 \<Rightarrow> vec4 \<Rightarrow> vec4" where
  "add4 a b = Vec4 (vx a + vx b) (vy a + vy b) (vz a + vz b) (vw a + vw b)"

definition scale4 :: "real \<Rightarrow> vec4 \<Rightarrow> vec4" where
  "scale4 k a = Vec4 (k * vx a) (k * vy a) (k * vz a) (k * vw a)"

text \<open>
  A render target (\<open>createTarget\<close>, Fluid.tsx line 35) is a square grid of RGBA
  float texels.  \<open>texel t i j\<close> is the texel in column \<open>i\<close> and row \<open>j\<close>; only
  indices below \<open>res t\<close> exist, and the sampler below never reads any other.
\<close>

record texture =
  res :: nat
  texel :: "nat \<Rightarrow> nat \<Rightarrow> vec4"

definition createTarget :: "nat \<Rightarrow> texture" where
  "createTarget r = \<lparr>res = r, texel = (\<lambda>i j. Vec4 0 0 0 0)\<rparr>"

definition simRes :: nat where
  "simRes = 256"

definition dyeRes :: nat where
  "dyeRes = 1024"

text \<open>
  \<open>texture2D\<close> is the sampler the targets are created with: \<open>LinearFilter\<close>
  (bilinear interpolation between the four nearest texel centres) and
  \<open>ClampToEdgeWrapping\<close> (a texel index outside the grid is clamped to the
  nearest edge texel).
\<close>

definition clampToEdge :: "nat \<Rightarrow> int \<Rightarrow> nat" where
  "clampToEdge n k = nat (max 0 (min (int n - 1) k))"

definition texture2D :: "texture \<Rightarrow> vec2 \<Rightarrow> vec4" where
  "texture2D t uv =
     (let n = real (res t);
          x = fst uv * n - 1 / 2;
          y = snd uv * n - 1 / 2;
          i0 = \<lfloor>x\<rfloor>;
          j0 = \<lfloor>y\<rfloor>;
          a = x - of_int i0;
          b = y - of_int j0;
          c = clampToEdge (res t);
          t00 = texel t (c i0) (c j0);
          t10 = texel t (c (i0 + 1)) (c j0);
          t01 = texel t (c i0) (c (j0 + 1));
          t11 = texel t (c (i0 + 1)) (c (j0 + 1))
      in add4 (scale4 (1 - b) (add4 (scale4 (1 - a) t00) (scale4 a t10)))
              (scale4 b (add4 (scale4 (1 - a) t01) (scale4 a t11))))"

text \<open>
  \<open>renderPass target material\<close> (line 184) draws a full-screen quad into the
  target: every texel receives the fragment shader's output at the texel's
  centre, which is the value of the varying \<open>vUv\<close> there.  The material is
  modelled by its fragment shader with the uniforms already supplied.
\<close>

definition texelCenter :: "nat \<Rightarrow> nat \<Rightarrow> real" where
  "texelCenter n i = (real i + 1 / 2) / real n"

definition renderPass :: "texture \<Rightarrow> (vec2 \<Rightarrow> vec4) \<Rightarrow> texture" where
  "renderPass target frag =
     target\<lparr>texel := (\<lambda>i j. frag (texelCenter (res target) i, texelCenter (res target) j))\<rparr>"

section \<open>Fragment shaders (constants.ts)\<close>

definition ADVECTION_SHADER ::
  "texture \<Rightarrow> texture \<Rightarrow> vec2 \<Rightarrow> real \<Rightarrow> real \<Rightarrow> vec2 \<Rightarrow> vec4" where
  "ADVECTION_SHADER uVelocity uSource texelSize dt dissipation vUv =
     (let v = xy (texture2D uVelocity vUv);
          coord = (fst vUv - dt * fst v * fst texelSize, snd vUv - dt * snd v * snd texelSize)
      in scale4 dissipation (texture2D uSource coord))"

definition SPLAT_SHADER ::
  "texture \<Rightarrow> real \<Rightarrow> vec3 \<Rightarrow> vec2 \<Rightarrow> real \<Rightarrow> vec2 \<Rightarrow> vec4" where
  "SPLAT_SHADER uTarget aspectRatio color point radius vUv =
     (let px = (fst vUv - fst point) * aspectRatio;
          py = snd vUv - snd point;
          splat = scale3 (exp (- (px * px + py * py) / radius)) color;
          base = xyz (texture2D uTarget vUv);
          s = add3 base splat
      in Vec4 (v3x s) (v3y s) (v3z s) 1)"

definition DIVERGENCE_SHADER :: "texture \<Rightarrow> vec2 \<Rightarrow> vec2 \<Rightarrow> vec4" where
  "DIVERGENCE_SHADER uVelocity texelSize vUv =
     (let L0 = vx (texture2D uVelocity (fst vUv - fst texelSize, snd vUv));
          R0 = vx (texture2D uVelocity (fst vUv + fst texelSize, snd vUv));
          T0 = vy (texture2D uVelocity (fst vUv, snd vUv + snd texelSize));
          B0 = vy (texture2D uVelocity (fst vUv, snd vUv - snd texelSize));
          C = xy (texture2D uVelocity vUv);
          L = (if fst vUv < 0 then - fst C else L0);
          R = (if fst vUv > 1 then - fst C else R0);
          T = (if snd vUv > 1 then - snd C else T0);
          B = (if snd vUv < 0 then - snd C else B0);
          dv = 0.5 * (R - L + T - B)
      in Vec4 dv 0 0 1)"

definition PRESSURE_SHADER :: "texture \<Rightarrow> texture \<Rightarrow> vec2 \<Rightarrow> vec2 \<Rightarrow> vec4" where
  "PRESSURE_SHADER uPressure uDivergence texelSize vUv =
     (let L = vx (texture2D uPressure (fst vUv - fst texelSize, snd vUv));
          R = vx (texture2D uPressure (fst vUv + fst texelSize, snd vUv));
          T = vx (texture2D uPressure (fst vUv, snd vUv + snd texelSize));
          B = vx (texture2D uPressure (fst vUv, snd vUv - snd texelSize));
          divergence = vx (texture2D uDivergence vUv);
          pressure = (L + R + B + T - divergence) * 0.25
      in Vec4 pressure 0 0 1)"

definition GRADIENT_SUBTRACT_SHADER :: "texture \<Rightarrow> texture \<Rightarrow> vec2 \<Rightarrow> vec2 \<Rightarrow> vec4" where
  "GRADIENT_SUBTRACT_SHADER uPressure uVelocity texelSize vUv =
     (let L = vx (texture2D uPressure (fst vUv - fst texelSize, snd vUv));
          R = vx (texture2D uPressure (fst vUv + fst texelSize, snd vUv));
          T = vx (texture2D uPressure (fst vUv, snd vUv + snd texelSize));
          B = vx (texture2D uPressure (fst vUv, snd vUv - snd texelSize));
          velocity = xy (texture2D uVelocity vUv)
      in Vec4 (fst velocity - (R - L)) (snd velocity - (T - B)) 0 1)"

section \<open>The solver's buffers and passes (Fluid.tsx)\<close>

text \<open>
  The ping-pong fields are two-element arrays: the first component is index 0
  (the buffer the passes read), the second is index 1 (the buffer they render
  into).  \<open>reverse\<close> is \<open>Array.prototype.reverse\<close> on such an array.
\<close>

type_synonym pingpong = "texture \<times> texture"

definition reverse :: "pingpong \<Rightarrow> pingpong" where
  "reverse b = (snd b, fst b)"

record fluid =
  velocity :: pingpong
  density :: pingpong
  pressure :: pingpong
  divergence :: texture

definition initialFluid :: fluid where
  "initialFluid =
     \<lparr>velocity = (createTarget simRes, createTarget simRes),
      density = (createTarget dyeRes, createTarget dyeRes),
      pressure = (createTarget simRes, createTarget simRes),
      divergence = createTarget simRes\<rparr>"

text \<open>
  A forcing event is one call \<open>applySplat(x, y, dx, dy, color, radius)\<close>
  (line 194).  \<open>canvas\<close> is the source's \<open>size\<close>: \<open>(width, height)\<close>.
\<close>

record splat =
  sx :: real
  sy :: real
  sdx :: real
  sdy :: real
  scolor :: vec3
  sradius :: real

definition applySplat :: "vec2 \<Rightarrow> splat \<Rightarrow> fluid \<Rightarrow> fluid" where
  "applySplat canvas e f =
     (let point = (sx e, 1 - sy e);
          aspectRatio = fst canvas / snd canvas;
          v1 = renderPass (snd (velocity f))
                 (SPLAT_SHADER (fst (velocity f)) aspectRatio (Vec3 (sdx e) (- sdy e) 1)
                    point (sradius e));
          f1 = f\<lparr>velocity := reverse (fst (velocity f), v1)\<rparr>;
          d1 = renderPass (snd (density f1))
                 (SPLAT_SHADER (fst (density f1)) aspectRatio (scolor e) point (sradius e))
      in f1\<lparr>density := reverse (fst (density f1), d1)\<rparr>)"

text \<open>The pressure loop of lines 431-435: one iteration, and the counted loop.\<close>

definition pressureIteration :: "texture \<Rightarrow> vec2 \<Rightarrow> pingpong \<Rightarrow> pingpong" where
  "pressureIteration uDivergence texelSize p =
     reverse (fst p, renderPass (snd p) (PRESSURE_SHADER (fst p) uDivergence texelSize))"

function pressureLoop :: "nat \<Rightarrow> texture \<Rightarrow> vec2 \<Rightarrow> pingpong \<Rightarrow> pingpong" where
  "pressureLoop i uDivergence texelSize p =
     (if i < 20 then pressureLoop (i + 1) uDivergence texelSize
                       (pressureIteration uDivergence texelSize p)
      else p)"
  by pat_completeness auto
termination
  by (relation "measure (\<lambda>(i, d, ts, p). 20 - i)") auto

declare pressureLoop.simps [simp del]

datatype FluidMode = flux | ignite | frost | mist

definition velocityDissipation :: "FluidMode \<Rightarrow> real" where
  "velocityDissipation m =
     (case m of ignite \<Rightarrow> 0.98 | mist \<Rightarrow> 0.99 | frost \<Rightarrow> 0.95 | flux \<Rightarrow> 0.99)"

definition densityDissipation :: "FluidMode \<Rightarrow> real" where
  "densityDissipation m =
     (case m of ignite \<Rightarrow> 0.92 | mist \<Rightarrow> 0.98 | frost \<Rightarrow> 0.97 | flux \<Rightarrow> 0.97)"

text \<open>Steps 3 to 7 of \<open>useFrame\<close> (lines 407-442), in the source's order.\<close>

definition divergencePass :: "fluid \<Rightarrow> fluid" where
  "divergencePass f =
     f\<lparr>divergence := renderPass (divergence f)
          (DIVERGENCE_SHADER (fst (velocity f)) (1 / real simRes, 1 / real simRes))\<rparr>"

definition pressurePass :: "fluid \<Rightarrow> fluid" where
  "pressurePass f =
     f\<lparr>pressure := pressureLoop 0 (divergence f) (1 / real simRes, 1 / real simRes) (pressure f)\<rparr>"

definition solverStep :: "FluidMode \<Rightarrow> fluid \<Rightarrow> fluid" where
  "solverStep m f =
     (let v1 = renderPass (snd (velocity f))
                 (ADVECTION_SHADER (fst (velocity f)) (fst (velocity f))
                    (1 / real simRes, 1 / real simRes) 0.016 (velocityDissipation m));
          f1 = f\<lparr>velocity := reverse (fst (velocity f), v1)\<rparr>;
          d1 = renderPass (snd (density f1))
                 (ADVECTION_SHADER (fst (velocity f1)) (fst (density f1))
                    (1 / real dyeRes, 1 / real dyeRes) 0.016 (densityDissipation m));
          f2 = f1\<lparr>density := reverse (fst (density f1), d1)\<rparr>;
          f3 = divergencePass f2;
          f4 = pressurePass f3;
          v2 = renderPass (snd (velocity f4))
                 (GRADIENT_SUBTRACT_SHADER (fst (pressure f4)) (fst (velocity f4))
                    (1 / real simRes, 1 / real simRes))
      in f4\<lparr>velocity := reverse (fst (velocity f4), v2)\<rparr>)"

section \<open>Signal source adapters (Fluid.tsx, \<open>useFrame\<close> steps 1 and 2)\<close>

text \<open>
  The drivers call \<open>applySplat\<close> as they go.  They never read the fluid
  buffers, so each driver is modelled as returning the list of its
  \<open>applySplat\<close> calls in call order (the forcing events of the frame), each
  tagged with the call site that made it, together with the driver's new
  state.  \<open>Math.random()\<close> is an input: \<open>rand n\<close> is the result of the
  \<open>n\<close>-th call a driver makes.
\<close>

datatype origin = Ambience | Trail | Burst | Pointer

type_synonym event = "origin \<times> splat"

subsection \<open>Ambience agents (lines 130-143 and 219-270)\<close>

record agent =
  agent_x :: real
  agent_y :: real
  xf1 :: real
  xf2 :: real
  yf1 :: real
  yf2 :: real
  px1 :: real
  px2 :: real
  py1 :: real
  py2 :: real

definition createAgent :: "(nat \<Rightarrow> real) \<Rightarrow> nat \<Rightarrow> agent" where
  "createAgent rand k =
     \<lparr>agent_x = rand (10 * k),
      agent_y = rand (10 * k + 1),
      xf1 = 0.15 + rand (10 * k + 2) * 0.25,
      xf2 = 0.4 + rand (10 * k + 3) * 0.4,
      yf1 = 0.15 + rand (10 * k + 4) * 0.25,
      yf2 = 0.4 + rand (10 * k + 5) * 0.4,
      px1 = rand (10 * k + 6) * pi * 2,
      px2 = rand (10 * k + 7) * pi * 2,
      py1 = rand (10 * k + 8) * pi * 2,
      py2 = rand (10 * k + 9) * pi * 2\<rparr>"

definition initialAgents :: "(nat \<Rightarrow> real) \<Rightarrow> agent list" where
  "initialAgents rand = map (createAgent rand) [0..<7]"

definition agentTx :: "real \<Rightarrow> agent \<Rightarrow> real" where
  "agentTx t a = 0.5 + sin (t * xf1 a + px1 a) * 0.35 + sin (t * xf2 a + px2 a) * 0.20"

definition agentTy :: "real \<Rightarrow> agent \<Rightarrow> real" where
  "agentTy t a = 0.5 + cos (t * yf1 a + py1 a) * 0.35 + cos (t * yf2 a + py2 a) * 0.20"

definition agentStep :: "real \<Rightarrow> agent \<Rightarrow> agent" where
  "agentStep t a =
     (let dx = agentTx t a - agent_x a;
          dy = agentTy t a - agent_y a
      in a\<lparr>agent_x := agent_x a + dx * 0.015, agent_y := agent_y a + dy * 0.015\<rparr>)"

definition ambienceColor :: "string \<Rightarrow> real \<Rightarrow> nat \<Rightarrow> vec3" where
  "ambienceColor ambienceMode t i =
     (let cycle = i mod 4 in
      if ambienceMode = ''forest'' then
        (let c = (if cycle = 0 then Vec3 0.1 0.8 0.2
                  else if cycle = 1 then Vec3 0.5 0.7 0.1
                  else if cycle = 2 then Vec3 0.0 0.5 0.3
                  else Vec3 0.2 0.6 0.1)
         in Vec3 (v3x c) (v3y c + sin (t + real i) * 0.05) (v3z c))
      else
        (let c = (if cycle = 0 then Vec3 0.0 0.6 0.9
                  else if cycle = 1 then Vec3 0.1 0.3 0.8
                  else if cycle = 2 then Vec3 0.3 0.2 1.0
                  else Vec3 0.0 0.8 0.8)
         in Vec3 (v3x c) (v3y c) (v3z c + cos (t + real i) * 0.05)))"

definition agentSplat :: "string \<Rightarrow> real \<Rightarrow> nat \<Rightarrow> agent \<Rightarrow> event" where
  "agentSplat ambienceMode t i a =
     (let dx = agentTx t a - agent_x a;
          dy = agentTy t a - agent_y a;
          a' = agentStep t a
      in (Ambience,
          \<lparr>sx = agent_x a', sy = agent_y a', sdx = dx * 15.0, sdy = dy * 15.0,
           scolor = ambienceColor ambienceMode t i, sradius = 0.0035\<rparr>))"

text \<open>The \<open>forEach((agent, i) => ...)\<close> over the agents, from index \<open>i\<close> on.\<close>

fun ambienceLoop :: "string \<Rightarrow> real \<Rightarrow> nat \<Rightarrow> agent list \<Rightarrow> event list \<times> agent list" where
  "ambienceLoop ambienceMode t i [] = ([], [])"
| "ambienceLoop ambienceMode t i (a # as) =
     (let r = ambienceLoop ambienceMode t (i + 1) as
      in (agentSplat ambienceMode t i a # fst r, agentStep t a # snd r))"

definition ambienceDriver :: "string \<Rightarrow> real \<Rightarrow> agent list \<Rightarrow> event list \<times> agent list" where
  "ambienceDriver ambienceMode t agents = ambienceLoop ambienceMode t 0 agents"

subsection \<open>Music-reactive driver (lines 124-127 and 274-330)\<close>

record musicState =
  wanderer_x :: real
  wanderer_y :: real
  lastBass :: real
  movementRef :: real

definition initialMusicState :: musicState where
  "initialMusicState = \<lparr>wanderer_x = 0.5, wanderer_y = 0.5, lastBass = 0, movementRef = 0\<rparr>"

text \<open>
  Binary64 rounding (round to nearest, ties to even) of a real below the
  overflow threshold.  \<open>bitLength n\<close> is the number of binary digits of \<open>n\<close>;
  \<open>binaryExponent x\<close> is the exponent \<open>e\<close> for which \<open>|x|\<close> lies between
  \<open>2 powi e\<close> (inclusive) and \<open>2 powi (e + 1)\<close> (exclusive); \<open>ulp64 x\<close> is the
  spacing of the binary64 numbers around \<open>x\<close> (53 significant bits, and the
  subnormal spacing below \<open>2 powi (- 1022)\<close>).  \<open>jsDiv\<close> and \<open>jsSub\<close> are
  JavaScript's \<open>/\<close> and \<open>-\<close> on numbers: the exact result, rounded.
\<close>

fun bitLength :: "nat \<Rightarrow> nat" where
  "bitLength n = (if n = 0 then 0 else Suc (bitLength (n div 2)))"

declare bitLength.simps [simp del]

definition binaryExponent :: "real \<Rightarrow> int" where
  "binaryExponent x =
     (let a = \<bar>x\<bar> in
      if 1 \<le> a then int (bitLength (nat \<lfloor>a\<rfloor>)) - 1
      else - int (bitLength (nat (\<lceil>1 / a\<rceil> - 1))))"

definition ulp64 :: "real \<Rightarrow> real" where
  "ulp64 x = 2 powi (max (binaryExponent x) (- 1022) - 52)"

definition roundHalfEven :: "real \<Rightarrow> int" where
  "roundHalfEven q =
     (let n = \<lfloor>q\<rfloor>; r = q - of_int n
      in if r < 1 / 2 \<or> (r = 1 / 2 \<and> even n) then n else n + 1)"

definition round64 :: "real \<Rightarrow> real" where
  "round64 x = (if x = 0 then 0 else of_int (roundHalfEven (x / ulp64 x)) * ulp64 x)"

definition jsDiv :: "real \<Rightarrow> real \<Rightarrow> real" where
  "jsDiv a b = round64 (a / b)"

definition jsSub :: "real \<Rightarrow> real \<Rightarrow> real" where
  "jsSub a b = round64 (a - b)"

text \<open>
  The snapshot is a \<open>Uint8Array\<close>.  The audio service allocates it with 128
  entries, so the indices 0 to 14 read below exist.  The sums are sums of
  at most 128 bytes: integers far below \<open>2 ^ 53\<close>, which binary64 addition
  computes exactly.  The two quotients are rounded.
\<close>

definition bassAvg :: "8 word list \<Rightarrow> real" where
  "bassAvg audioData = jsDiv (\<Sum>i\<leftarrow>[0..<15]. real (unat (audioData ! i))) 15"

definition volAvg :: "8 word list \<Rightarrow> real" where
  "volAvg audioData =
     jsDiv (\<Sum>i\<leftarrow>[0..<length audioData]. real (unat (audioData ! i)))
       (real (length audioData))"

text \<open>
  \<open>THREE.Color.setHSL\<close> belongs to the rendering library; it is a parameter.
  \<open>fmod1 x\<close> is JavaScript's \<open>x % 1.0\<close>.
\<close>

definition fmod1 :: "real \<Rightarrow> real" where
  "fmod1 x = x - of_int (if 0 \<le> x then \<lfloor>x\<rfloor> else \<lceil>x\<rceil>)"

definition musicColor :: "(real \<Rightarrow> real \<Rightarrow> real \<Rightarrow> vec3) \<Rightarrow> FluidMode \<Rightarrow> real \<Rightarrow> vec3" where
  "musicColor setHSL currentMode t =
     (case currentMode of
        ignite \<Rightarrow> Vec3 1.0 0.2 0.0
      | frost \<Rightarrow> Vec3 0.1 0.6 1.0
      | mist \<Rightarrow> Vec3 0.8 0.8 0.8
      | flux \<Rightarrow> setHSL (fmod1 (t * 0.5)) 0.8 0.5)"

text \<open>The burst loop of lines 318-327; iteration \<open>i\<close> makes five \<open>Math.random()\<close> calls.\<close>

function dropBurst :: "nat \<Rightarrow> (nat \<Rightarrow> real) \<Rightarrow> vec3 \<Rightarrow> event list" where
  "dropBurst i rand color =
     (if i < 30 then
        (let rx = rand (5 * i);
             ry = rand (5 * i + 1);
             angle = rand (5 * i + 2) * pi * 2;
             speed = 20.0 + rand (5 * i + 3) * 60.0;
             bdx = cos angle * speed;
             bdy = sin angle * speed;
             flashColor = scale3 4.0 color
         in (Burst, \<lparr>sx = rx, sy = ry, sdx = bdx, sdy = bdy, scolor = flashColor,
                     sradius = 0.005 + rand (5 * i + 4) * 0.015\<rparr>)
            # dropBurst (i + 1) rand color)
      else [])"
  by pat_completeness auto
termination
  by (relation "measure (\<lambda>(i, r, c). 30 - i)") auto

declare dropBurst.simps [simp del]

definition isDrop :: "real \<Rightarrow> real \<Rightarrow> bool" where
  "isDrop bass prev \<longleftrightarrow> bass > 110 \<and> jsSub bass prev > 20"

definition musicDriver ::
  "(real \<Rightarrow> real \<Rightarrow> real \<Rightarrow> vec3) \<Rightarrow> FluidMode \<Rightarrow> real \<Rightarrow> real \<Rightarrow> (nat \<Rightarrow> real)
     \<Rightarrow> 8 word list option \<Rightarrow> musicState \<Rightarrow> event list \<times> musicState" where
  "musicDriver setHSL currentMode time delta rand audioData s =
     (case audioData of
        None \<Rightarrow> ([], s)
      | Some d \<Rightarrow>
          (let bass = bassAvg d;
               vol = volAvg d;
               excitement = (vol / 255.0) powr 2.5;
               tVal = time * 1.2;
               chaos = sin tVal * cos (tVal * 2.7) + sin (tVal * 1.5) * 0.5;
               sporadicFactor = 1.2 + \<bar>chaos + 0.5\<bar> powr 2.5 * 4.0;
               wanderSpeed = (0.8 + excitement * 4.0) * sporadicFactor;
               t = movementRef s + delta * wanderSpeed;
               tx = 0.5 + sin (t * 0.5) * 0.4 + sin (t * 1.42) * 0.2;
               ty = 0.5 + cos (t * 0.36) * 0.4 + cos (t * 1.73) * 0.2;
               smooth = 0.1;
               wx = wanderer_x s + (tx - wanderer_x s) * smooth;
               wy = wanderer_y s + (ty - wanderer_y s) * smooth;
               color = musicColor setHSL currentMode time;
               trail = (if vol > 2 then
                          [(Trail, \<lparr>sx = wx, sy = wy,
                                    sdx = (tx - wx) * 40.0 * excitement,
                                    sdy = (ty - wy) * 40.0 * excitement,
                                    scolor = color,
                                    sradius = 0.004 + excitement * 0.005\<rparr>)]
                        else []);
               burst = (if isDrop bass (lastBass s) then dropBurst 0 rand color else [])
           in (trail @ burst,
               s\<lparr>wanderer_x := wx, wanderer_y := wy, lastBass := bass, movementRef := t\<rparr>)))"

subsection \<open>Pointer driver (lines 122, 146-169 and 336-381)\<close>

record pointer =
  pointer_x :: real
  pointer_y :: real
  pointer_dx :: real
  pointer_dy :: real
  moved :: bool
  down :: bool

definition initialPointer :: pointer where
  "initialPointer =
     \<lparr>pointer_x = 0, pointer_y = 0, pointer_dx = 0, pointer_dy = 0, moved = False, down = False\<rparr>"

definition handleMove :: "real \<Rightarrow> real \<Rightarrow> pointer \<Rightarrow> pointer" where
  "handleMove x y p =
     \<lparr>pointer_x = x, pointer_y = y, pointer_dx = x - pointer_x p, pointer_dy = y - pointer_y p,
      moved = True, down = True\<rparr>"

definition handleUp :: "pointer \<Rightarrow> pointer" where
  "handleUp p = p\<lparr>down := False\<rparr>"

definition pointerColor :: "FluidMode \<Rightarrow> real \<Rightarrow> real \<Rightarrow> vec3" where
  "pointerColor currentMode t rVal =
     (case currentMode of
        ignite \<Rightarrow> Vec3 1.0 (0.1 + rVal * 0.3) 0.05
      | frost \<Rightarrow> Vec3 0.05 (0.5 + rVal * 0.4) (0.9 + rVal * 0.1)
      | mist \<Rightarrow> (let grey = 0.5 + rVal * 0.5 in Vec3 grey grey grey)
      | flux \<Rightarrow> Vec3 (sin (t * 0.5) * 0.5 + 0.5)
                     (sin (t * 0.5 + 2.0) * 0.5 + 0.5)
                     (sin (t * 0.5 + 4.0) * 0.5 + 0.5))"

text \<open>
  The result of the pointer step: the forcing events, the pointer record
  afterwards, the argument passed to \<open>audioService.update\<close>, and the argument
  passed to the optional \<open>onInteract\<close> callback (if the branch calls it).
\<close>

record pointerResult =
  pointerEvents :: "event list"
  pointerAfter :: pointer
  audioIntensity :: real
  interactSpeed :: "real option"

definition pointerDriver :: "FluidMode \<Rightarrow> real \<Rightarrow> real \<Rightarrow> vec2 \<Rightarrow> pointer \<Rightarrow> pointerResult" where
  "pointerDriver currentMode t rVal canvas p =
     (if moved p then
        (let dx = pointer_dx p;
             dy = pointer_dy p;
             velocityMag = sqrt (dx * dx + dy * dy);
             u = pointer_x p / fst canvas;
             v = pointer_y p / snd canvas;
             color = pointerColor currentMode t rVal;
             interactRadius = 0.001 + min velocityMag 100 * 0.00005
         in \<lparr>pointerEvents =
               [(Pointer, \<lparr>sx = u, sy = v, sdx = dx * 5.0, sdy = dy * 5.0, scolor = color,
                           sradius = interactRadius\<rparr>)],
             pointerAfter = p\<lparr>moved := False, pointer_dx := 0, pointer_dy := 0\<rparr>,
             audioIntensity = min (velocityMag / 20) 1,
             interactSpeed = Some velocityMag\<rparr>)
      else \<lparr>pointerEvents = [], pointerAfter = p, audioIntensity = 0, interactSpeed = None\<rparr>)"

section \<open>The audio service (\<open>AudioService\<close>)\<close>

datatype OscillatorType = sine | square | sawtooth | triangle

datatype BiquadFilterType =
  lowpass | highpass | bandpass | lowshelf | highshelf | peaking | notch | allpass

datatype InstrumentType = flux_instrument | drone | spark | orbit

record OscConfig =
  cfg_type :: OscillatorType
  cfg_freq :: real
  cfg_detune :: real

record InstrumentConfig =
  oscillators :: "OscConfig list"
  filter_type :: BiquadFilterType
  filter_baseFreq :: real
  filter_modFreq :: real
  filter_Q :: real
  gain_base :: real
  gain_mod :: real
  gain_attack :: real
  delay_time :: real
  delay_feedback :: real
  delay_mix :: real

text \<open>The preset table \<open>INSTRUMENTS\<close>; \<open>flux_instrument\<close> is the preset \<open>flux\<close>.\<close>

definition INSTRUMENTS :: "InstrumentType \<Rightarrow> InstrumentConfig" where
  "INSTRUMENTS ty =
     (case ty of
        flux_instrument \<Rightarrow>
          \<lparr>oscillators =
             [\<lparr>cfg_type = sine, cfg_freq = 261.63, cfg_detune = 0\<rparr>,
              \<lparr>cfg_type = sine, cfg_freq = 293.66, cfg_detune = 5\<rparr>,
              \<lparr>cfg_type = triangle, cfg_freq = 392.00, cfg_detune = - 5\<rparr>],
           filter_type = lowpass, filter_baseFreq = 200, filter_modFreq = 2500, filter_Q = 0.5,
           gain_base = 0.05, gain_mod = 0.35, gain_attack = 0.3,
           delay_time = 0.4, delay_feedback = 0.3, delay_mix = 0.25\<rparr>
      | drone \<Rightarrow>
          \<lparr>oscillators =
             [\<lparr>cfg_type = sawtooth, cfg_freq = 65.41, cfg_detune = 0\<rparr>,
              \<lparr>cfg_type = sawtooth, cfg_freq = 130.81, cfg_detune = 8\<rparr>,
              \<lparr>cfg_type = square, cfg_freq = 98.00, cfg_detune = - 8\<rparr>],
           filter_type = lowpass, filter_baseFreq = 80, filter_modFreq = 800, filter_Q = 2.0,
           gain_base = 0.1, gain_mod = 0.3, gain_attack = 0.1,
           delay_time = 0.2, delay_feedback = 0.4, delay_mix = 0.1\<rparr>
      | spark \<Rightarrow>
          \<lparr>oscillators =
             [\<lparr>cfg_type = sine, cfg_freq = 523.25, cfg_detune = 0\<rparr>,
              \<lparr>cfg_type = sine, cfg_freq = 659.25, cfg_detune = 0\<rparr>,
              \<lparr>cfg_type = sine, cfg_freq = 987.77, cfg_detune = 0\<rparr>],
           filter_type = highpass, filter_baseFreq = 2000, filter_modFreq = - 1500, filter_Q = 1.0,
           gain_base = 0.0, gain_mod = 0.2, gain_attack = 0.05,
           delay_time = 0.25, delay_feedback = 0.6, delay_mix = 0.4\<rparr>
      | orbit \<Rightarrow>
          \<lparr>oscillators =
             [\<lparr>cfg_type = sine, cfg_freq = 130.81, cfg_detune = 0\<rparr>,
              \<lparr>cfg_type = sine, cfg_freq = 261.63, cfg_detune = 2\<rparr>,
              \<lparr>cfg_type = sine, cfg_freq = 523.25, cfg_detune = - 2\<rparr>],
           filter_type = bandpass, filter_baseFreq = 300, filter_modFreq = 1000, filter_Q = 5.0,
           gain_base = 0.05, gain_mod = 0.4, gain_attack = 0.5,
           delay_time = 0.6, delay_feedback = 0.5, delay_mix = 0.3\<rparr>)"

subsection \<open>Web Audio nodes\<close>

text \<open>
  An \<open>AudioParam\<close> is its directly assigned \<open>.value\<close> and the automation the
  code has scheduled on it, kept in call order.  \<open>SetValueAtTime v t\<close> is
  \<open>setValueAtTime(v, t)\<close>; \<open>SetTargetAtTime v t c\<close> is
  \<open>setTargetAtTime(v, t, c)\<close>, an exponential approach to \<open>v\<close> that starts at
  \<open>t\<close> with time constant \<open>c\<close>.  \<open>cancelScheduledValues(t)\<close> removes the
  events whose time is \<open>t\<close> or later.  Freshly created nodes carry the Web
  Audio defaults.
\<close>

datatype automation = SetValueAtTime real real | SetTargetAtTime real real real

record AudioParam =
  pvalue :: real
  events :: "automation list"

fun eventTime :: "automation \<Rightarrow> real" where
  "eventTime (SetValueAtTime v t) = t"
| "eventTime (SetTargetAtTime v t c) = t"

definition newParam :: "real \<Rightarrow> AudioParam" where
  "newParam v = \<lparr>pvalue = v, events = []\<rparr>"

definition setValueAtTime :: "real \<Rightarrow> real \<Rightarrow> AudioParam \<Rightarrow> AudioParam" where
  "setValueAtTime v t p = p\<lparr>events := events p @ [SetValueAtTime v t]\<rparr>"

definition setTargetAtTime :: "real \<Rightarrow> real \<Rightarrow> real \<Rightarrow> AudioParam \<Rightarrow> AudioParam" where
  "setTargetAtTime v t c p = p\<lparr>events := events p @ [SetTargetAtTime v t c]\<rparr>"

definition cancelScheduledValues :: "real \<Rightarrow> AudioParam \<Rightarrow> AudioParam" where
  "cancelScheduledValues t p = p\<lparr>events := filter (\<lambda>e. eventTime e < t) (events p)\<rparr>"

record OscillatorNode =
  node_type :: OscillatorType
  frequency :: AudioParam
  detune :: AudioParam
  startTime :: real

record BiquadFilterNode =
  biquad_type :: BiquadFilterType
  biquad_frequency :: AudioParam
  biquad_Q :: AudioParam

record GainNode =
  gain :: AudioParam

record DelayNode =
  delayTime :: AudioParam

record AnalyserNode =
  fftSize :: nat

datatype AudioContext = AudioContext

definition createGain :: GainNode where
  "createGain = \<lparr>gain = newParam 1\<rparr>"

definition createBiquadFilter :: BiquadFilterNode where
  "createBiquadFilter =
     \<lparr>biquad_type = lowpass, biquad_frequency = newParam 350, biquad_Q = newParam 1\<rparr>"

definition createDelay :: DelayNode where
  "createDelay = \<lparr>delayTime = newParam 0\<rparr>"

subsection \<open>The service's fields and methods\<close>

text \<open>
  The fields of the class, without the media element and its source node
  (stream playback is not modelled).  \<open>now\<close> is \<open>ctx.currentTime\<close> as read by
  the call.  Dereferencing a node field that is \<open>null\<close> throws; the methods
  return \<open>Inl TypeError\<close> for it.
\<close>

datatype audio_error = TypeError

record AudioService =
  ctx :: "AudioContext option"
  oscs :: "OscillatorNode list"
  mainFilter :: "BiquadFilterNode option"
  mainGain :: "GainNode option"
  delayNode :: "DelayNode option"
  delayGain :: "GainNode option"
  delayFeedback :: "GainNode option"
  globalGain :: "GainNode option"
  analyser :: "AnalyserNode option"
  dataArray :: "8 word list option"
  isMusicPlaying :: bool
  currentType :: InstrumentType
  masterVolume :: real
  isMuted :: bool
  isInitialized :: bool

definition audioService :: AudioService where
  "audioService =
     \<lparr>ctx = None, oscs = [], mainFilter = None, mainGain = None, delayNode = None,
      delayGain = None, delayFeedback = None, globalGain = None, analyser = None,
      dataArray = None, isMusicPlaying = False, currentType = flux_instrument,
      masterVolume = 0.5, isMuted = False, isInitialized = False\<rparr>"

definition startOscillator :: "real \<Rightarrow> OscConfig \<Rightarrow> OscillatorNode" where
  "startOscillator now oscConfig =
     \<lparr>node_type = cfg_type oscConfig,
      frequency = newParam (cfg_freq oscConfig),
      detune = newParam (cfg_detune oscConfig),
      startTime = now\<rparr>"

definition setInstrument :: "InstrumentType \<Rightarrow> real \<Rightarrow> AudioService \<Rightarrow> audio_error + AudioService" where
  "setInstrument ty now s =
     (if ctx s = None \<or> \<not> isInitialized s then Inr (s\<lparr>currentType := ty\<rparr>)
      else
        (let config = INSTRUMENTS ty in
         case (mainFilter s, mainGain s, delayNode s, delayFeedback s, delayGain s) of
           (Some flt, Some mg, Some dn, Some df, Some dg) \<Rightarrow>
             Inr (s\<lparr>currentType := ty,
                    oscs := map (startOscillator now) (oscillators config),
                    mainFilter := Some (flt\<lparr>biquad_type := filter_type config,
                                             biquad_frequency :=
                                               setValueAtTime (filter_baseFreq config) now
                                                 (cancelScheduledValues now (biquad_frequency flt)),
                                             biquad_Q := (biquad_Q flt)\<lparr>pvalue := filter_Q config\<rparr>\<rparr>),
                    mainGain := Some (mg\<lparr>gain := setValueAtTime 0 now
                                                     (cancelScheduledValues now (gain mg))\<rparr>),
                    delayNode := Some (dn\<lparr>delayTime := setValueAtTime (delay_time config) now
                                                            (delayTime dn)\<rparr>),
                    delayFeedback := Some (df\<lparr>gain := setValueAtTime (delay_feedback config) now
                                                           (gain df)\<rparr>),
                    delayGain := Some (dg\<lparr>gain := setValueAtTime (delay_mix config) now
                                                       (gain dg)\<rparr>)\<rparr>)
         | _ \<Rightarrow> Inl TypeError))"

definition init :: "real \<Rightarrow> AudioService \<Rightarrow> audio_error + AudioService" where
  "init now s =
     (if isInitialized s then Inr s
      else setInstrument (currentType s) now
             (s\<lparr>ctx := Some AudioContext,
                globalGain := Some \<lparr>gain = newParam (if isMuted s then 0 else masterVolume s)\<rparr>,
                analyser := Some \<lparr>fftSize = 256\<rparr>,
                dataArray := Some (replicate (256 div 2) 0),
                mainFilter := Some createBiquadFilter,
                mainGain := Some createGain,
                delayNode := Some createDelay,
                delayGain := Some createGain,
                delayFeedback := Some createGain,
                isInitialized := True\<rparr>))"

text \<open>
  \<open>getByteFrequencyData\<close> overwrites the array, whatever its length, with the
  analyser's current magnitudes; \<open>spectrum k\<close> is the magnitude of bin \<open>k\<close>.
\<close>

definition getAudioData :: "(nat \<Rightarrow> 8 word) \<Rightarrow> AudioService \<Rightarrow> 8 word list option \<times> AudioService" where
  "getAudioData spectrum s =
     (case (analyser s, dataArray s) of
        (Some an, Some arr) \<Rightarrow>
          (let arr' = map spectrum [0..<length arr]
           in (Some arr', s\<lparr>dataArray := Some arr'\<rparr>))
      | _ \<Rightarrow> (None, s))"

definition setMute :: "bool \<Rightarrow> real \<Rightarrow> AudioService \<Rightarrow> AudioService" where
  "setMute mute now s =
     (let s1 = s\<lparr>isMuted := mute\<rparr> in
      case (globalGain s1, ctx s1) of
        (Some g, Some c) \<Rightarrow>
          (let target = (if mute then 0 else masterVolume s1)
           in s1\<lparr>globalGain := Some (g\<lparr>gain := setTargetAtTime target now 0.1 (gain g)\<rparr>)\<rparr>)
      | _ \<Rightarrow> s1)"

definition setMasterVolume :: "real \<Rightarrow> real \<Rightarrow> AudioService \<Rightarrow> AudioService" where
  "setMasterVolume vol now s =
     (let s1 = s\<lparr>masterVolume := vol\<rparr> in
      case (globalGain s1, ctx s1) of
        (Some g, Some c) \<Rightarrow>
          (if \<not> isMuted s1
           then s1\<lparr>globalGain := Some (g\<lparr>gain := setTargetAtTime vol now 0.1 (gain g)\<rparr>)\<rparr>
           else s1)
      | _ \<Rightarrow> s1)"

text \<open>
  The locals of \<open>update\<close> (lines 723-741), named as in the source; its
  parameter \<open>velocity\<close> is written \<open>vel\<close>.
\<close>

definition isActive :: "real \<Rightarrow> bool" where
  "isActive intensity \<longleftrightarrow> intensity > 0.001"

definition targetGain :: "InstrumentConfig \<Rightarrow> real \<Rightarrow> real" where
  "targetGain config intensity =
     (if isActive intensity then gain_base config + intensity * gain_mod config else 0)"

definition rampTime :: "InstrumentConfig \<Rightarrow> real \<Rightarrow> real" where
  "rampTime config intensity = (if isActive intensity then gain_attack config else 0.5)"

definition safeFreq :: "InstrumentConfig \<Rightarrow> real \<Rightarrow> real" where
  "safeFreq config intensity =
     (let targetFreq = (if isActive intensity
                        then filter_baseFreq config + intensity * filter_modFreq config
                        else filter_baseFreq config)
      in max 20 (min 20000 targetFreq))"

text \<open>The detune wobble: \<open>oscs.forEach((osc, i) => ...)\<close> from index \<open>i\<close> on.\<close>

fun wobble :: "OscConfig list \<Rightarrow> real \<Rightarrow> real \<Rightarrow> nat \<Rightarrow> OscillatorNode list
                 \<Rightarrow> audio_error + OscillatorNode list" where
  "wobble cfgs detuneAmount now i [] = Inr []"
| "wobble cfgs detuneAmount now i (osc # rest) =
     (if i < length cfgs then
        (let dir = (if i mod 2 = 0 then 1 else - 1);
             baseDetune = cfg_detune (cfgs ! i);
             osc' = osc\<lparr>detune := setTargetAtTime (baseDetune + detuneAmount * dir) now 0.5
                                      (detune osc)\<rparr>
         in case wobble cfgs detuneAmount now (i + 1) rest of
              Inl e \<Rightarrow> Inl e
            | Inr rest' \<Rightarrow> Inr (osc' # rest'))
      else Inl TypeError)"

definition update :: "real \<Rightarrow> real \<Rightarrow> AudioService \<Rightarrow> audio_error + AudioService" where
  "update vel now s =
     (case (ctx s, mainFilter s, mainGain s) of
        (Some c, Some flt, Some mg) \<Rightarrow>
          (if \<not> isInitialized s then Inr s
           else
             (let config = INSTRUMENTS (currentType s);
                  intensity = min vel 1.2;
                  mg' = mg\<lparr>gain := setTargetAtTime (targetGain config intensity) now
                                       (rampTime config intensity) (gain mg)\<rparr>;
                  flt' = flt\<lparr>biquad_frequency :=
                               setTargetAtTime (safeFreq config intensity) now 0.2
                                 (biquad_frequency flt)\<rparr>;
                  detuneAmount = intensity * 10
              in case wobble (oscillators config) detuneAmount now 0 (oscs s) of
                   Inl e \<Rightarrow> Inl e
                 | Inr oscs' \<Rightarrow>
                     Inr (s\<lparr>mainGain := Some mg', mainFilter := Some flt', oscs := oscs'\<rparr>)))
      | _ \<Rightarrow> Inr s)"

section \<open>One frame (\<open>useFrame\<close>, lines 209-446)\<close>

record frameInput =
  in_mode :: FluidMode
  in_isMusicActive :: bool
  in_ambienceMode :: "string option"
  in_elapsedTime :: real
  in_delta :: real
  in_canvas :: vec2
  in_rand :: "nat \<Rightarrow> real"
  in_spectrum :: "nat \<Rightarrow> 8 word"
  in_currentTime :: real
  in_setHSL :: "real \<Rightarrow> real \<Rightarrow> real \<Rightarrow> vec3"

record world =
  fluidState :: fluid
  pointerState :: pointer
  musicRefs :: musicState
  ambienceAgents :: "agent list"
  audio :: AudioService

text \<open>
  Step 1 of the frame: the automated driver selected by the props.
  \<open>if (ambienceMode)\<close> holds for a string that is neither \<open>null\<close>,
  \<open>undefined\<close> nor empty.
\<close>

definition ambienceBranch :: "string \<Rightarrow> frameInput \<Rightarrow> world \<Rightarrow> event list \<times> world" where
  "ambienceBranch m inp w =
     (let r = ambienceDriver m (in_elapsedTime inp) (ambienceAgents w)
      in (fst r, w\<lparr>ambienceAgents := snd r\<rparr>))"

definition musicBranch :: "frameInput \<Rightarrow> world \<Rightarrow> event list \<times> world" where
  "musicBranch inp w =
     (let a = getAudioData (in_spectrum inp) (audio w);
          r = musicDriver (in_setHSL inp) (in_mode inp) (in_elapsedTime inp) (in_delta inp)
                (in_rand inp) (fst a) (musicRefs w)
      in (fst r, w\<lparr>audio := snd a, musicRefs := snd r\<rparr>))"

definition automatedSplats :: "frameInput \<Rightarrow> world \<Rightarrow> event list \<times> world" where
  "automatedSplats inp w =
     (if in_isMusicActive inp then
        (case in_ambienceMode inp of
           None \<Rightarrow> musicBranch inp w
         | Some m \<Rightarrow> if m \<noteq> [] then ambienceBranch m inp w else musicBranch inp w)
      else ([], w))"

definition burstCount :: "event list \<Rightarrow> nat" where
  "burstCount evs = length (filter (\<lambda>e. fst e = Burst) evs)"

definition pointerCount :: "event list \<Rightarrow> nat" where
  "pointerCount evs = length (filter (\<lambda>e. fst e = Pointer) evs)"

text \<open>
  The whole frame.  The pointer step draws the next \<open>Math.random()\<close> result
  after the five per burst particle.  The events are applied to the fluid in
  call order, then the solver passes run.  A frame in which
  \<open>audioService.update\<close> throws is \<open>Inl\<close>.
\<close>

definition useFrame :: "frameInput \<Rightarrow> world \<Rightarrow> audio_error + (event list \<times> world)" where
  "useFrame inp w =
     (let r1 = automatedSplats inp w;
          w1 = snd r1;
          rVal = in_rand inp (5 * burstCount (fst r1));
          pr = pointerDriver (in_mode inp) (in_elapsedTime inp) rVal (in_canvas inp) (pointerState w1);
          evs = fst r1 @ pointerEvents pr;
          f1 = foldl (\<lambda>f e. applySplat (in_canvas inp) (snd e) f) (fluidState w1) evs
      in case update (audioIntensity pr) (in_currentTime inp) (audio w1) of
           Inl err \<Rightarrow> Inl err
         | Inr a \<Rightarrow>
             Inr (evs, w1\<lparr>fluidState := solverStep (in_mode inp) f1,
                           pointerState := pointerAfter pr,
                           audio := a\<rparr>))"

subsection \<open>An initialised audio engine\<close>

text \<open>
  \<open>graphReady\<close> holds of the service once \<open>init\<close> has run: the context and
  every node \<open>init\<close> creates exist.  \<open>oscillatorBank\<close> reads the waveform,
  frequency and detune of the live oscillators.
\<close>

definition graphReady :: "AudioService \<Rightarrow> bool" where
  "graphReady s \<longleftrightarrow>
     ctx s \<noteq> None \<and> isInitialized s \<and> mainFilter s \<noteq> None \<and> mainGain s \<noteq> None
     \<and> delayNode s \<noteq> None \<and> delayFeedback s \<noteq> None \<and> delayGain s \<noteq> None
     \<and> globalGain s \<noteq> None"

definition oscillatorBank :: "AudioService \<Rightarrow> (OscillatorType \<times> real \<times> real) list" where
  "oscillatorBank s = map (\<lambda>osc. (node_type osc, pvalue (frequency osc), pvalue (detune osc))) (oscs s)"

subsection \<open>The margin the ambience agents move in\<close>

definition inMargin :: "real \<Rightarrow> bool" where
  "inMargin v \<longleftrightarrow> - 0.05 \<le> v \<and> v \<le> 1.05"

definition agentInMargin :: "agent \<Rightarrow> bool" where
  "agentInMargin a \<longleftrightarrow> inMargin (agent_x a) \<and> inMargin (agent_y a)"

subsection \<open>A concrete start state\<close>

text \<open>
  The state after mounting (before the audio service is initialised) with the
  pointer record \<open>p\<close>, and the inputs of a frame on an 800 by 600 canvas with
  no music or ambience stream active.
\<close>

definition startWorld :: "pointer \<Rightarrow> world" where
  "startWorld p =
     \<lparr>fluidState = initialFluid, pointerState = p, musicRefs = initialMusicState,
      ambienceAgents = initialAgents (\<lambda>n. 0), audio = audioService\<rparr>"

definition quietInput :: frameInput where
  "quietInput =
     \<lparr>in_mode = flux, in_isMusicActive = False, in_ambienceMode = None, in_elapsedTime = 0,
      in_delta = 0.016, in_canvas = (800, 600), in_rand = (\<lambda>n. 0), in_spectrum = (\<lambda>k. 0),
      in_currentTime = 0, in_setHSL = Vec3\<rparr>"

subsection \<open>The divergence pass as the specification words it\<close>

text \<open>
  This definition follows the specification's sentence, not the shader: the
  central difference of the four neighbours, where a neighbour that would lie
  outside the grid contributes the negation of the cell's own component.
  It is only used to compare the shader against.
\<close>

definition spec_divergence :: "texture \<Rightarrow> nat \<Rightarrow> nat \<Rightarrow> real" where
  "spec_divergence v i j =
     (let C = texel v i j;
          L = (if i = 0 then - vx C else vx (texel v (i - 1) j));
          R = (if i + 1 = res v then - vx C else vx (texel v (i + 1) j));
          T = (if j + 1 = res v then - vy C else vy (texel v i (j + 1)));
          B = (if j = 0 then - vy C else vy (texel v i (j - 1)))
      in 0.5 * ((R - L) + (T - B)))"

text \<open>A velocity field that flows to the right with speed 1 in every cell.\<close>

definition uniformFlow :: texture where
  "uniformFlow = \<lparr>res = simRes, texel = (\<lambda>i j. Vec4 1 0 0 1)\<rparr>"

section \<open>Sampling at texel centres\<close>

lemma clampToEdge_inside: "i < n \<Longrightarrow> clampToEdge n (int i) = i"
  by (simp add: clampToEdge_def)

lemma add4_scale4_unit: "add4 (scale4 1 a) (scale4 0 b) = a"
  by (cases a) (simp add: add4_def scale4_def)

lemma texture2D_at_offset:
  assumes "0 < res t"
  shows "texture2D t ((real i + 1 / 2 + of_int k) / real (res t),
                      (real j + 1 / 2 + of_int l) / real (res t))
         = texel t (clampToEdge (res t) (int i + k)) (clampToEdge (res t) (int j + l))"
proof -
  have n: "real (res t) \<noteq> 0" using assms by simp
  have x: "(real i + 1 / 2 + of_int k) / real (res t) * real (res t) - 1 / 2
           = of_int (int i + k)"
    using n by simp
  have y: "(real j + 1 / 2 + of_int l) / real (res t) * real (res t) - 1 / 2
           = of_int (int j + l)"
    using n by simp
  show ?thesis
    unfolding texture2D_def Let_def fst_conv snd_conv x y floor_of_int
    by (simp add: add4_scale4_unit)
qed


lemma texture2D_center:
  assumes "0 < res t" "i < res t" "j < res t"
  shows "texture2D t (texelCenter (res t) i, texelCenter (res t) j) = texel t i j"
  using texture2D_at_offset [OF assms(1), of i 0 j 0] assms(2,3)
  by (simp add: texelCenter_def clampToEdge_inside)

lemma texture2D_left:
  assumes "0 < res t"
  shows "texture2D t (texelCenter (res t) i - 1 / real (res t), texelCenter (res t) j)
         = texel t (clampToEdge (res t) (int i - 1)) (clampToEdge (res t) (int j))"
  using texture2D_at_offset [OF assms, of i "-1" j 0]
  by (simp add: texelCenter_def diff_divide_distrib add_divide_distrib)

lemma texture2D_right:
  assumes "0 < res t"
  shows "texture2D t (texelCenter (res t) i + 1 / real (res t), texelCenter (res t) j)
         = texel t (clampToEdge (res t) (int i + 1)) (clampToEdge (res t) (int j))"
  using texture2D_at_offset [OF assms, of i 1 j 0]
  by (simp add: texelCenter_def diff_divide_distrib add_divide_distrib)

lemma texture2D_top:
  assumes "0 < res t"
  shows "texture2D t (texelCenter (res t) i, texelCenter (res t) j + 1 / real (res t))
         = texel t (clampToEdge (res t) (int i)) (clampToEdge (res t) (int j + 1))"
  using texture2D_at_offset [OF assms, of i 0 j 1]
  by (simp add: texelCenter_def diff_divide_distrib add_divide_distrib)

lemma texture2D_bottom:
  assumes "0 < res t"
  shows "texture2D t (texelCenter (res t) i, texelCenter (res t) j - 1 / real (res t))
         = texel t (clampToEdge (res t) (int i)) (clampToEdge (res t) (int j - 1))"
  using texture2D_at_offset [OF assms, of i 0 j "-1"]
  by (simp add: texelCenter_def diff_divide_distrib add_divide_distrib)

lemma texelCenter_inside: "0 < n \<Longrightarrow> 0 < texelCenter n i \<and> (i < n \<longrightarrow> texelCenter n i < 1)"
  by (simp add: texelCenter_def field_simps)


lemma res_renderPass: "res (renderPass t f) = res t"
  by (simp add: renderPass_def)

lemma texel_renderPass:
  "texel (renderPass t f) i j = f (texelCenter (res t) i, texelCenter (res t) j)"
  by (simp add: renderPass_def)

lemma pressureLoop_unroll:
  "i \<le> 20 \<Longrightarrow> pressureLoop i dv ts p = (pressureIteration dv ts ^^ (20 - i)) p"
proof (induction i dv ts p rule: pressureLoop.induct)
  case (1 i dv ts p)
  show ?case
  proof (cases "i < 20")
    case True
    then have "20 - i = Suc (20 - (i + 1))" by simp
    with True 1 show ?thesis
      by (simp add: pressureLoop.simps [of i] funpow_Suc_right del: funpow.simps)
  next
    case False
    with 1 have "i = 20" by simp
    then show ?thesis by (simp add: pressureLoop.simps [of 20])
  qed
qed

lemma PRESSURE_SHADER_cell:
  assumes "res p = n" "res dv = n" "0 < n" "i < n" "j < n"
  shows "PRESSURE_SHADER p dv (1 / real n, 1 / real n) (texelCenter n i, texelCenter n j)
         = Vec4 ((vx (texel p (clampToEdge n (int i - 1)) j)
                  + vx (texel p (clampToEdge n (int i + 1)) j)
                  + vx (texel p i (clampToEdge n (int j + 1)))
                  + vx (texel p i (clampToEdge n (int j - 1)))
                  - vx (texel dv i j)) / 4) 0 0 1"
proof -
  have p: "0 < res p" and d: "0 < res dv" using assms by simp_all
  show ?thesis
    using texture2D_left [OF p, of i j] texture2D_right [OF p, of i j]
      texture2D_top [OF p, of i j] texture2D_bottom [OF p, of i j]
      texture2D_center [OF d, of i j] assms
    by (simp add: PRESSURE_SHADER_def Let_def clampToEdge_inside)
qed


lemma pressureIteration_funpow:
  assumes "res b = res a"
  shows "(pressureIteration dv ts ^^ Suc k) (a, b)
         = (((\<lambda>q. renderPass b (PRESSURE_SHADER q dv ts)) ^^ Suc k) a,
            ((\<lambda>q. renderPass b (PRESSURE_SHADER q dv ts)) ^^ k) a)"
proof (induction k)
  case 0
  show ?case by (simp add: pressureIteration_def reverse_def)
next
  case (Suc k)
  have r: "res x = res b \<Longrightarrow> renderPass x f = renderPass b (f::vec2 \<Rightarrow> vec4)" for x f
    by (simp add: renderPass_def)
  have rk: "res (((\<lambda>q. renderPass b (PRESSURE_SHADER q dv ts)) ^^ k) a) = res b"
    by (cases k) (simp_all add: assms res_renderPass)
  have "(pressureIteration dv ts ^^ Suc (Suc k)) (a, b)
        = pressureIteration dv ts ((pressureIteration dv ts ^^ Suc k) (a, b))"
    by simp
  also have "\<dots> = pressureIteration dv ts
                     (((\<lambda>q. renderPass b (PRESSURE_SHADER q dv ts)) ^^ Suc k) a,
                      ((\<lambda>q. renderPass b (PRESSURE_SHADER q dv ts)) ^^ k) a)"
    by (simp only: Suc)
  also have "\<dots> = (((\<lambda>q. renderPass b (PRESSURE_SHADER q dv ts)) ^^ Suc (Suc k)) a,
                   ((\<lambda>q. renderPass b (PRESSURE_SHADER q dv ts)) ^^ Suc k) a)"
    using r [OF rk] by (simp add: pressureIteration_def reverse_def)
  finally show ?case .
qed


section \<open>The pressure relaxation pass\<close>

lemma solverStep_pressure:
  "pressure (solverStep m f)
     = (pressureIteration (divergence (solverStep m f)) (1 / real simRes, 1 / real simRes) ^^ 20)
         (pressure f)"
  using pressureLoop_unroll [of 0]
  by (simp add: solverStep_def Let_def pressurePass_def divergencePass_def)

text \<open>
  Claim C1.  The pressure buffers after a solver step are those before it
  after exactly 20 applications of the loop body, run on the divergence field
  the step has computed; the pressure pass \<open>pressurePass\<close> is these 20
  applications and leaves the divergence field as it is.  One
  application, on an active buffer \<open>a\<close> and an inactive buffer \<open>b\<close>, renders
  the pressure shader (which samples \<open>a\<close> and the divergence field) into \<open>b\<close>
  and swaps the two, so \<open>a\<close> becomes the inactive buffer.  The value written
  at cell \<open>(i, j)\<close> is \<open>(L + R + T + B - divergence) / 4\<close>, where \<open>L\<close>, \<open>R\<close>,
  \<open>T\<close>, \<open>B\<close> are the pressures of \<open>a\<close> in the four neighbouring cells (the
  cell itself where the neighbour would lie outside the grid).  After the
  loop the active buffer is the 20th iterate of that sweep on the initially
  active buffer, and the inactive buffer is the 19th.
\<close>

theorem pressure_pass_20_jacobi_iterations:
  assumes "res (fst (pressure f)) = simRes" and "res (snd (pressure f)) = simRes"
    and "res (divergence f) = simRes"
    and "res a = simRes" and "res b = simRes"
    and "i < simRes" and "j < simRes"
  shows "pressure (solverStep m g)
           = (pressureIteration (divergence (solverStep m g)) (1 / real simRes, 1 / real simRes) ^^ 20)
               (pressure g)
       \<and> pressure (pressurePass f)
           = (pressureIteration (divergence f) (1 / real simRes, 1 / real simRes) ^^ 20) (pressure f)
       \<and> divergence (pressurePass f) = divergence f
       \<and> pressureIteration (divergence f) (1 / real simRes, 1 / real simRes) (a, b)
           = (renderPass b (PRESSURE_SHADER a (divergence f) (1 / real simRes, 1 / real simRes)), a)
       \<and> texel (renderPass b (PRESSURE_SHADER a (divergence f) (1 / real simRes, 1 / real simRes))) i j
           = Vec4 ((vx (texel a (clampToEdge simRes (int i - 1)) j)
                    + vx (texel a (clampToEdge simRes (int i + 1)) j)
                    + vx (texel a i (clampToEdge simRes (int j + 1)))
                    + vx (texel a i (clampToEdge simRes (int j - 1)))
                    - vx (texel (divergence f) i j)) / 4) 0 0 1
       \<and> fst (pressure (pressurePass f))
           = ((\<lambda>q. renderPass b (PRESSURE_SHADER q (divergence f) (1 / real simRes, 1 / real simRes))) ^^ 20)
               (fst (pressure f))
       \<and> snd (pressure (pressurePass f))
           = ((\<lambda>q. renderPass b (PRESSURE_SHADER q (divergence f) (1 / real simRes, 1 / real simRes))) ^^ 19)
               (fst (pressure f))"
proof -
  let ?ts = "(1 / real simRes, 1 / real simRes)"
  let ?dv = "divergence f"
  have n: "0 < simRes" by (simp add: simRes_def)
  have loop: "pressure (pressurePass f) = (pressureIteration ?dv ?ts ^^ 20) (pressure f)"
    using pressureLoop_unroll [of 0 ?dv ?ts "pressure f"] by (simp add: pressurePass_def)
  have dvs: "divergence (pressurePass f) = ?dv"
    by (simp add: pressurePass_def)
  have iter: "pressureIteration ?dv ?ts (a, b) = (renderPass b (PRESSURE_SHADER a ?dv ?ts), a)"
    by (simp add: pressureIteration_def reverse_def)
  have cell: "texel (renderPass b (PRESSURE_SHADER a ?dv ?ts)) i j
           = Vec4 ((vx (texel a (clampToEdge simRes (int i - 1)) j)
                    + vx (texel a (clampToEdge simRes (int i + 1)) j)
                    + vx (texel a i (clampToEdge simRes (int j + 1)))
                    + vx (texel a i (clampToEdge simRes (int j - 1)))
                    - vx (texel ?dv i j)) / 4) 0 0 1"
    using PRESSURE_SHADER_cell [OF assms(4) assms(3) n assms(6) assms(7)] assms(5)
    by (simp add: texel_renderPass)
  have same: "renderPass (snd (pressure f)) g = renderPass b (g::vec2 \<Rightarrow> vec4)" for g
    using assms(2,5) by (simp add: renderPass_def)
  have "res (snd (pressure f)) = res (fst (pressure f))" using assms(1,2) by simp
  then have "(pressureIteration ?dv ?ts ^^ Suc 19) (fst (pressure f), snd (pressure f))
          = (((\<lambda>q. renderPass (snd (pressure f)) (PRESSURE_SHADER q ?dv ?ts)) ^^ Suc 19) (fst (pressure f)),
             ((\<lambda>q. renderPass (snd (pressure f)) (PRESSURE_SHADER q ?dv ?ts)) ^^ 19) (fst (pressure f)))"
    by (rule pressureIteration_funpow)
  moreover have e: "(20::nat) = Suc 19" by simp
  ultimately have "(pressureIteration ?dv ?ts ^^ 20) (pressure f)
          = (((\<lambda>q. renderPass b (PRESSURE_SHADER q ?dv ?ts)) ^^ 20) (fst (pressure f)),
             ((\<lambda>q. renderPass b (PRESSURE_SHADER q ?dv ?ts)) ^^ 19) (fst (pressure f)))"
    by (simp only: same prod.collapse)
  with loop have fin: "fst (pressure (pressurePass f))
           = ((\<lambda>q. renderPass b (PRESSURE_SHADER q ?dv ?ts)) ^^ 20) (fst (pressure f))"
     "snd (pressure (pressurePass f))
           = ((\<lambda>q. renderPass b (PRESSURE_SHADER q ?dv ?ts)) ^^ 19) (fst (pressure f))"
    by simp_all
  from solverStep_pressure [of m g] loop dvs iter cell fin show ?thesis by (intro conjI)
qed


theorem pressure_pass_20_jacobi_iterations_witness:
  "res (fst (pressure initialFluid)) = simRes \<and> res (snd (pressure initialFluid)) = simRes
   \<and> res (divergence initialFluid) = simRes \<and> res (createTarget simRes) = simRes
   \<and> (0::nat) < simRes
   \<and> pressure (pressurePass initialFluid)
       = (pressureIteration (divergence initialFluid) (1 / real simRes, 1 / real simRes) ^^ 20)
           (pressure initialFluid)
   \<and> texel (fst (pressureIteration (divergence initialFluid) (1 / real simRes, 1 / real simRes)
                   (createTarget simRes, createTarget simRes))) 0 0 = Vec4 0 0 0 1"
proof -
  have h1: "res (fst (pressure initialFluid)) = simRes"
    and h2: "res (snd (pressure initialFluid)) = simRes"
    and h3: "res (divergence initialFluid) = simRes"
    and h4: "res (createTarget simRes) = simRes"
    and h5: "(0::nat) < simRes"
    by (simp_all add: initialFluid_def createTarget_def simRes_def)
  note c = pressure_pass_20_jacobi_iterations [OF h1 h2 h3 h4 h4 h5 h5]
  have v: "vx (texel (createTarget simRes) i j) = 0" for i j
    by (simp add: createTarget_def)
  have d: "texel (divergence initialFluid) 0 0 = Vec4 0 0 0 0"
    by (simp add: initialFluid_def createTarget_def)
  from c have "texel (fst (pressureIteration (divergence initialFluid) (1 / real simRes, 1 / real simRes)
                   (createTarget simRes, createTarget simRes))) 0 0 = Vec4 0 0 0 1"
    by (simp add: v d)
  with c h1 h2 h3 h4 h5 show ?thesis by (intro conjI) simp_all
qed

section \<open>The divergence pass\<close>

lemma DIVERGENCE_SHADER_cell:
  assumes "res v = n" "0 < n" "i < n" "j < n"
  shows "DIVERGENCE_SHADER v (1 / real n, 1 / real n) (texelCenter n i, texelCenter n j)
         = Vec4 (0.5 * (vx (texel v (clampToEdge n (int i + 1)) j)
                        - vx (texel v (clampToEdge n (int i - 1)) j)
                        + vy (texel v i (clampToEdge n (int j + 1)))
                        - vy (texel v i (clampToEdge n (int j - 1))))) 0 0 1"
proof -
  have p: "0 < res v" using assms by simp
  have c: "\<not> texelCenter n i < 0" "\<not> texelCenter n i > 1"
          "\<not> texelCenter n j < 0" "\<not> texelCenter n j > 1"
    using texelCenter_inside [OF assms(2), of i] texelCenter_inside [OF assms(2), of j] assms(3,4)
    by simp_all
  show ?thesis
    using texture2D_left [OF p, of i j] texture2D_right [OF p, of i j]
      texture2D_top [OF p, of i j] texture2D_bottom [OF p, of i j] assms c
    by (simp add: DIVERGENCE_SHADER_def Let_def clampToEdge_inside)
qed

lemma divergencePass_cell:
  assumes "res (fst (velocity f)) = simRes" "res (divergence f) = simRes" "i < simRes" "j < simRes"
  shows "texel (divergence (divergencePass f)) i j
         = Vec4 (0.5 * (vx (texel (fst (velocity f)) (clampToEdge simRes (int i + 1)) j)
                        - vx (texel (fst (velocity f)) (clampToEdge simRes (int i - 1)) j)
                        + vy (texel (fst (velocity f)) i (clampToEdge simRes (int j + 1)))
                        - vy (texel (fst (velocity f)) i (clampToEdge simRes (int j - 1))))) 0 0 1"
proof -
  have n: "0 < simRes" by (simp add: simRes_def)
  show ?thesis
    using DIVERGENCE_SHADER_cell [OF assms(1) n assms(3) assms(4)] assms(2)
    by (simp add: divergencePass_def texel_renderPass)
qed

lemma divergencePass_interior_agrees:
  assumes "res (fst (velocity f)) = simRes" "res (divergence f) = simRes"
    "0 < i" "i + 1 < simRes" "0 < j" "j + 1 < simRes"
  shows "vx (texel (divergence (divergencePass f)) i j) = spec_divergence (fst (velocity f)) i j"
proof -
  have i: "i < simRes" and j: "j < simRes" using assms by simp_all
  have c: "clampToEdge simRes (int i + 1) = i + 1" "clampToEdge simRes (int i - 1) = i - 1"
          "clampToEdge simRes (int j + 1) = j + 1" "clampToEdge simRes (int j - 1) = j - 1"
    using assms by (simp_all add: clampToEdge_def nat_add_distrib nat_diff_distrib')
  show ?thesis
    using assms c by (simp add: divergencePass_cell [OF assms(1,2) i j] spec_divergence_def Let_def)
qed

text \<open>
  Claim C2.  The shader's four boundary tests compare the fragment's own
  coordinate \<open>vUv\<close> with 0 and 1; a fragment centre lies strictly between
  them, so no test ever succeeds and an outside neighbour is read through the
  clamping sampler, which returns the boundary cell's own component, not its
  negation.  On the uniform flow the pass therefore writes divergence 0 into
  the corner cell, where the specification's wording gives 1.  On interior
  cells the two agree (\<open>divergencePass_interior_agrees\<close>).
\<close>

theorem divergence_pass_boundary_cell:
  "vx (texel (divergence (divergencePass (initialFluid\<lparr>velocity := (uniformFlow, createTarget simRes)\<rparr>))) 0 0) = 0
   \<and> spec_divergence uniformFlow 0 0 = 1"
proof -
  let ?f = "initialFluid\<lparr>velocity := (uniformFlow, createTarget simRes)\<rparr>"
  have h1: "res (fst (velocity ?f)) = simRes" by (simp add: uniformFlow_def)
  have h2: "res (divergence ?f) = simRes" by (simp add: initialFluid_def createTarget_def)
  have h3: "(0::nat) < simRes" by (simp add: simRes_def)
  have "vx (texel (divergence (divergencePass ?f)) 0 0) = 0"
    unfolding divergencePass_cell [OF h1 h2 h3 h3] by (simp add: uniformFlow_def)
  moreover have "spec_divergence uniformFlow 0 0 = 1"
    by (simp add: spec_divergence_def uniformFlow_def simRes_def)
  ultimately show ?thesis by simp
qed


section \<open>The splat operation\<close>

lemma SPLAT_SHADER_cell:
  assumes "0 < res t" "i < res t" "j < res t"
  shows "SPLAT_SHADER t aspect color point radius (texelCenter (res t) i, texelCenter (res t) j)
         = (let g = exp (- (((texelCenter (res t) i - fst point) * aspect)\<^sup>2
                            + (texelCenter (res t) j - snd point)\<^sup>2) / radius)
            in Vec4 (vx (texel t i j) + g * v3x color)
                    (vy (texel t i j) + g * v3y color)
                    (vz (texel t i j) + g * v3z color) 1)"
  by (simp add: SPLAT_SHADER_def Let_def texture2D_center [OF assms] xyz_def add3_def
      scale3_def power2_eq_square)

text \<open>
  Claim C3.  \<open>applySplat\<close> renders into the inactive velocity buffer, at every
  cell, the active velocity value plus \<open>exp (- d\<^sup>2 / radius)\<close> times
  \<open>(dx, - dy, 1)\<close>, and swaps the two velocity buffers (the old active buffer
  becomes the inactive one); then it does the same on the density buffers with
  \<open>color\<close> in place of the force.  \<open>d\<close> is the distance from the cell centre to
  the point \<open>(x, 1 - y)\<close>, its horizontal part scaled by the aspect ratio;
  the alpha component written is 1.  Pressure and divergence are untouched.
  The radius and the canvas height are positive, as they are at every call.
\<close>

theorem applySplat_adds_gaussian_and_swaps:
  assumes "res (fst (velocity f)) = res (snd (velocity f))"
    and "res (fst (density f)) = res (snd (density f))"
    and "i < res (snd (velocity f))" and "j < res (snd (velocity f))"
    and "k < res (snd (density f))" and "l < res (snd (density f))"
    and "0 < sradius e" and "0 < snd canvas"
  shows "snd (velocity (applySplat canvas e f)) = fst (velocity f)
       \<and> res (fst (velocity (applySplat canvas e f))) = res (snd (velocity f))
       \<and> texel (fst (velocity (applySplat canvas e f))) i j
           = (let g = exp (- (((texelCenter (res (snd (velocity f))) i - sx e) * (fst canvas / snd canvas))\<^sup>2
                              + (texelCenter (res (snd (velocity f))) j - (1 - sy e))\<^sup>2) / sradius e)
              in Vec4 (vx (texel (fst (velocity f)) i j) + g * sdx e)
                      (vy (texel (fst (velocity f)) i j) + g * (- sdy e))
                      (vz (texel (fst (velocity f)) i j) + g * 1) 1)
       \<and> snd (density (applySplat canvas e f)) = fst (density f)
       \<and> res (fst (density (applySplat canvas e f))) = res (snd (density f))
       \<and> texel (fst (density (applySplat canvas e f))) k l
           = (let g = exp (- (((texelCenter (res (snd (density f))) k - sx e) * (fst canvas / snd canvas))\<^sup>2
                              + (texelCenter (res (snd (density f))) l - (1 - sy e))\<^sup>2) / sradius e)
              in Vec4 (vx (texel (fst (density f)) k l) + g * v3x (scolor e))
                      (vy (texel (fst (density f)) k l) + g * v3y (scolor e))
                      (vz (texel (fst (density f)) k l) + g * v3z (scolor e)) 1)
       \<and> pressure (applySplat canvas e f) = pressure f
       \<and> divergence (applySplat canvas e f) = divergence f"
proof -
  have v: "0 < res (fst (velocity f))" "i < res (fst (velocity f))" "j < res (fst (velocity f))"
    using assms(1,3,4) by simp_all
  have d: "0 < res (fst (density f))" "k < res (fst (density f))" "l < res (fst (density f))"
    using assms(2,5,6) by simp_all
  have vs: "snd (velocity (applySplat canvas e f)) = fst (velocity f)"
    and vr: "res (fst (velocity (applySplat canvas e f))) = res (snd (velocity f))"
    and ds: "snd (density (applySplat canvas e f)) = fst (density f)"
    and dr: "res (fst (density (applySplat canvas e f))) = res (snd (density f))"
    and pr: "pressure (applySplat canvas e f) = pressure f"
    and dv: "divergence (applySplat canvas e f) = divergence f"
    by (simp_all add: applySplat_def Let_def reverse_def res_renderPass)
  have vt: "texel (fst (velocity (applySplat canvas e f))) i j
           = SPLAT_SHADER (fst (velocity f)) (fst canvas / snd canvas) (Vec3 (sdx e) (- sdy e) 1)
               (sx e, 1 - sy e) (sradius e)
               (texelCenter (res (fst (velocity f))) i, texelCenter (res (fst (velocity f))) j)"
    using assms(1) by (simp add: applySplat_def Let_def reverse_def texel_renderPass)
  have dt: "texel (fst (density (applySplat canvas e f))) k l
           = SPLAT_SHADER (fst (density f)) (fst canvas / snd canvas) (scolor e)
               (sx e, 1 - sy e) (sradius e)
               (texelCenter (res (fst (density f))) k, texelCenter (res (fst (density f))) l)"
    using assms(2) by (simp add: applySplat_def Let_def reverse_def texel_renderPass)
  show ?thesis
    unfolding vt dt SPLAT_SHADER_cell [OF v] SPLAT_SHADER_cell [OF d]
    using vs vr ds dr pr dv assms(1,2) by simp
qed


theorem applySplat_adds_gaussian_and_swaps_witness:
  "res (fst (velocity initialFluid)) = res (snd (velocity initialFluid))
   \<and> res (fst (density initialFluid)) = res (snd (density initialFluid))
   \<and> (0::nat) < res (snd (velocity initialFluid))
   \<and> (0::nat) < res (snd (density initialFluid))
   \<and> (0::real) < sradius \<lparr>sx = 1 / 2, sy = 1 / 2, sdx = 50, sdy = 0, scolor = Vec3 1 0 0, sradius = 1 / 400\<rparr>
   \<and> (0::real) < snd (800::real, 600::real)
   \<and> snd (velocity (applySplat (800, 600)
          \<lparr>sx = 1 / 2, sy = 1 / 2, sdx = 50, sdy = 0, scolor = Vec3 1 0 0, sradius = 1 / 400\<rparr>
          initialFluid)) = createTarget simRes
   \<and> vy (texel (fst (velocity (applySplat (800, 600)
          \<lparr>sx = 1 / 2, sy = 1 / 2, sdx = 50, sdy = 0, scolor = Vec3 1 0 0, sradius = 1 / 400\<rparr>
          initialFluid))) 0 0) = 0
   \<and> vw (texel (fst (density (applySplat (800, 600)
          \<lparr>sx = 1 / 2, sy = 1 / 2, sdx = 50, sdy = 0, scolor = Vec3 1 0 0, sradius = 1 / 400\<rparr>
          initialFluid))) 0 0) = 1"
proof -
  let ?e = "\<lparr>sx = 1 / 2, sy = 1 / 2, sdx = 50, sdy = 0, scolor = Vec3 1 0 0, sradius = 1 / 400\<rparr>"
  have h1: "res (fst (velocity initialFluid)) = res (snd (velocity initialFluid))"
    and h2: "res (fst (density initialFluid)) = res (snd (density initialFluid))"
    and h3: "(0::nat) < res (snd (velocity initialFluid))"
    and h4: "(0::nat) < res (snd (density initialFluid))"
    and h5: "(0::real) < sradius ?e"
    and h6: "(0::real) < snd (800::real, 600::real)"
    by (simp_all add: initialFluid_def createTarget_def simRes_def dyeRes_def)
  note c = applySplat_adds_gaussian_and_swaps [OF h1 h2 h3 h3 h4 h4 h5 h6]
  have v: "fst (velocity initialFluid) = createTarget simRes"
    by (simp add: initialFluid_def)
  have z: "vy (texel (fst (velocity initialFluid)) 0 0) = 0"
    by (simp add: initialFluid_def createTarget_def)
  from c have "snd (velocity (applySplat (800, 600) ?e initialFluid)) = createTarget simRes"
    by (simp only: v)
  moreover from c have "vy (texel (fst (velocity (applySplat (800, 600) ?e initialFluid))) 0 0) = 0"
    by (simp add: Let_def z)
  moreover from c have "vw (texel (fst (density (applySplat (800, 600) ?e initialFluid))) 0 0) = 1"
    by (simp add: Let_def)
  ultimately show ?thesis using h1 h2 h3 h4 h5 h6 by (intro conjI) simp_all
qed

section \<open>Binary64 rounding\<close>

lemma bitLength_bounds:
  "0 < n \<Longrightarrow> 2 ^ (bitLength n - 1) \<le> n \<and> n < 2 ^ bitLength n"
proof (induction n rule: bitLength.induct)
  case (1 n)
  show ?case
  proof (cases "n div 2 = 0")
    case True
    with 1(2) have "n = 1" by (simp add: div_eq_0_iff) 
    then show ?thesis by (simp add: bitLength.simps)
  next
    case False
    then have m: "0 < n div 2" by simp
    from 1(1) [OF _ m] 1(2)
    have ih: "2 ^ (bitLength (n div 2) - 1) \<le> n div 2" "n div 2 < 2 ^ bitLength (n div 2)"
      by simp_all
    have k: "0 < bitLength (n div 2)" using m by (subst bitLength.simps) simp
    have b: "bitLength n = Suc (bitLength (n div 2))" using 1(2) by (subst bitLength.simps) simp
    have "(2::nat) ^ bitLength (n div 2) = 2 * 2 ^ (bitLength (n div 2) - 1)"
      using k by (cases "bitLength (n div 2)") simp_all
    also have "\<dots> \<le> 2 * (n div 2)" using ih(1) by simp
    also have "\<dots> \<le> n" by simp
    finally have lo: "2 ^ bitLength (n div 2) \<le> n" .
    from ih(2) have "n div 2 + 1 \<le> 2 ^ bitLength (n div 2)" by simp
    then have "2 * (n div 2) + 2 \<le> 2 * 2 ^ bitLength (n div 2)" by simp
    moreover have "n < 2 * (n div 2) + 2" by presburger
    ultimately have hi: "n < 2 * 2 ^ bitLength (n div 2)" by linarith
    from lo hi show ?thesis unfolding b by simp
  qed
qed

lemma binaryExponent_bounds:
  assumes "x \<noteq> 0"
  shows "2 powi binaryExponent x \<le> \<bar>x\<bar>" and "\<bar>x\<bar> < 2 powi (binaryExponent x + 1)"
proof -
  let ?a = "\<bar>x\<bar>"
  have a: "0 < ?a" using assms by simp
  have "2 powi binaryExponent x \<le> ?a \<and> ?a < 2 powi (binaryExponent x + 1)"
  proof (cases "1 \<le> ?a")
    case True
    let ?n = "nat \<lfloor>?a\<rfloor>"
    have n: "0 < ?n" using True by simp
    have e: "binaryExponent x = int (bitLength ?n) - 1"
      using True by (simp add: binaryExponent_def Let_def)
    from bitLength_bounds [OF n] have lo: "2 ^ (bitLength ?n - 1) \<le> ?n" and hi: "?n < 2 ^ bitLength ?n"
      by simp_all
    have k: "0 < bitLength ?n" using n by (subst bitLength.simps) simp
    have na: "real ?n \<le> ?a" using True by simp
    have "real (2 ^ (bitLength ?n - 1)) \<le> real ?n" using lo by (simp only: of_nat_le_iff)
    then have "real (2 ^ (bitLength ?n - 1)) \<le> ?a" using na by (rule order_trans)
    then have l: "2 ^ (bitLength ?n - 1) \<le> ?a" by (simp only: of_nat_power of_nat_numeral)
    from hi have "?n + 1 \<le> 2 ^ bitLength ?n" unfolding Suc_eq_plus1 [symmetric] by (rule Suc_leI)
    then have "real (?n + 1) \<le> real (2 ^ bitLength ?n)" by (simp only: of_nat_le_iff)
    then have "real (?n + 1) \<le> 2 ^ bitLength ?n" by (simp only: of_nat_power of_nat_numeral)
    moreover have "?a < real (?n + 1)" using True by simp linarith
    ultimately have h: "?a < 2 ^ bitLength ?n" by simp
    have p1: "(2::real) powi (int (bitLength ?n) - 1) = 2 ^ (bitLength ?n - 1)"
      using k by (simp add: power_int_def nat_diff_distrib')
    have p2: "(2::real) powi (int (bitLength ?n) - 1 + 1) = 2 ^ bitLength ?n"
      by (simp add: power_int_def)
    show ?thesis unfolding e p1 p2 using l h by simp
  next
    case False
    let ?y = "1 / ?a"
    let ?N = "\<lceil>?y\<rceil>"
    let ?m = "nat (?N - 1)"
    have y: "1 < ?y" using False a by simp
    then have N: "2 \<le> ?N" by linarith
    then have m: "0 < ?m" by linarith
    have e: "binaryExponent x = - int (bitLength ?m)"
      using False by (simp add: binaryExponent_def Let_def)
    from bitLength_bounds [OF m] have lo: "2 ^ (bitLength ?m - 1) \<le> ?m" and hi: "?m < 2 ^ bitLength ?m"
      by simp_all
    have k: "0 < bitLength ?m" using m by (subst bitLength.simps) simp
    have "0 \<le> ?N - 1" using N by linarith
    then have "real ?m = of_int (?N - 1)" by (rule of_nat_nat)
    then have mN: "real ?m = of_int ?N - 1" by simp
    from hi have "?m + 1 \<le> 2 ^ bitLength ?m" unfolding Suc_eq_plus1 [symmetric] by (rule Suc_leI)
    then have "real (?m + 1) \<le> real (2 ^ bitLength ?m)" by (simp only: of_nat_le_iff)
    then have "real (?m + 1) \<le> 2 ^ bitLength ?m" by (simp only: of_nat_power of_nat_numeral)
    then have "of_int ?N \<le> (2::real) ^ bitLength ?m" using mN by simp
    moreover have "?y \<le> of_int ?N" by simp
    ultimately have yh: "?y \<le> 2 ^ bitLength ?m" by linarith
    have "real (2 ^ (bitLength ?m - 1)) \<le> real ?m" using lo by (simp only: of_nat_le_iff)
    then have "(2::real) ^ (bitLength ?m - 1) \<le> of_int ?N - 1"
      unfolding mN by (simp only: of_nat_power of_nat_numeral)
    moreover have "of_int ?N - 1 < ?y" by linarith
    ultimately have yl: "2 ^ (bitLength ?m - 1) < ?y" by linarith
    have l: "1 / 2 ^ bitLength ?m \<le> ?a"
      using yh a by (simp add: field_simps)
    have h: "?a < 1 / 2 ^ (bitLength ?m - 1)"
      using yl a by (simp add: field_simps)
    have p1: "(2::real) powi (- int (bitLength ?m)) = 1 / 2 ^ bitLength ?m"
      by (simp add: power_int_def field_simps)
    have p2: "(2::real) powi (- int (bitLength ?m) + 1) = 1 / 2 ^ (bitLength ?m - 1)"
      using k by (cases "bitLength ?m") (simp_all add: power_int_def field_simps)
    show ?thesis unfolding e p1 p2 using l h by simp
  qed
  then show "2 powi binaryExponent x \<le> \<bar>x\<bar>" and "\<bar>x\<bar> < 2 powi (binaryExponent x + 1)"
    by simp_all
qed


lemma pow2_less_imp: "(2::real) powi a < 2 powi b \<Longrightarrow> a < b"
proof (rule ccontr)
  assume l: "(2::real) powi a < 2 powi b" and "\<not> a < b"
  then have "b \<le> a" by simp
  then have "(2::real) powi b \<le> 2 powi a" by (rule power_int_increasing) simp
  with l show False by simp
qed

lemma binaryExponent_eqI:
  assumes "x \<noteq> 0" and "2 powi k \<le> \<bar>x\<bar>" and "\<bar>x\<bar> < 2 powi (k + 1)"
  shows "binaryExponent x = k"
proof -
  note b = binaryExponent_bounds [OF assms(1)]
  from b(1) assms(3) have "(2::real) powi binaryExponent x < 2 powi (k + 1)" by (rule le_less_trans)
  then have "binaryExponent x < k + 1" by (rule pow2_less_imp)
  moreover from assms(2) b(2) have "(2::real) powi k < 2 powi (binaryExponent x + 1)"
    by (rule le_less_trans)
  then have "k < binaryExponent x + 1" by (rule pow2_less_imp)
  ultimately show ?thesis by simp
qed

lemma binaryExponent_mono:
  assumes "x \<noteq> 0" and "\<bar>x\<bar> \<le> \<bar>y\<bar>"
  shows "binaryExponent x \<le> binaryExponent y"
proof -
  have y: "y \<noteq> 0" using assms by auto
  from binaryExponent_bounds(1) [OF assms(1)] assms(2)
  have "2 powi binaryExponent x \<le> \<bar>y\<bar>" by (rule order_trans)
  from this binaryExponent_bounds(2) [OF y]
  have "(2::real) powi binaryExponent x < 2 powi (binaryExponent y + 1)" by (rule le_less_trans)
  then have "binaryExponent x < binaryExponent y + 1" by (rule pow2_less_imp)
  then show ?thesis by simp
qed

lemma ulp64_pos: "0 < ulp64 x"
  by (simp add: ulp64_def)

lemma roundHalfEven_of_int: "roundHalfEven (of_int k) = k"
  by (simp add: roundHalfEven_def)

lemma roundHalfEven_le:
  assumes "q \<le> of_int k"
  shows "roundHalfEven q \<le> k"
proof -
  from assms have f: "\<lfloor>q\<rfloor> \<le> k" by (simp add: floor_le_iff)
  show ?thesis
  proof (cases "\<lfloor>q\<rfloor> = k")
    case True
    with assms have "q = of_int \<lfloor>q\<rfloor>" using of_int_floor_le [of q] by simp
    then have "q - of_int \<lfloor>q\<rfloor> = 0" by simp
    then show ?thesis using True by (simp add: roundHalfEven_def Let_def)
  next
    case False
    with f have "\<lfloor>q\<rfloor> + 1 \<le> k" by simp
    then show ?thesis by (simp add: roundHalfEven_def Let_def)
  qed
qed

lemma roundHalfEven_ge:
  assumes "of_int k \<le> q"
  shows "k \<le> roundHalfEven q"
proof -
  from assms have "k \<le> \<lfloor>q\<rfloor>" by (simp add: le_floor_iff)
  then show ?thesis by (simp add: roundHalfEven_def Let_def)
qed

lemma round64_exact:
  assumes "x / ulp64 x = of_int k"
  shows "round64 x = x"
proof (cases "x = 0")
  case True
  then show ?thesis by (simp add: round64_def)
next
  case False
  have "of_int k * ulp64 x = x" using assms ulp64_pos [of x] by (simp add: field_simps)
  then show ?thesis using False by (simp add: round64_def assms roundHalfEven_of_int)
qed

lemma round64_nonpos:
  assumes "x \<le> 0"
  shows "round64 x \<le> 0"
proof (cases "x = 0")
  case True
  then show ?thesis by (simp add: round64_def)
next
  case False
  have "x / ulp64 x \<le> of_int 0" using assms ulp64_pos [of x] by (simp add: field_simps)
  then have "roundHalfEven (x / ulp64 x) \<le> 0" by (rule roundHalfEven_le)
  then have "of_int (roundHalfEven (x / ulp64 x)) * ulp64 x \<le> 0"
    using ulp64_pos [of x] by (simp add: mult_le_0_iff)
  then show ?thesis using False by (simp add: round64_def)
qed

lemma ulp64_ratio:
  assumes "x \<noteq> 0" and "\<bar>x\<bar> \<le> \<bar>c\<bar>"
  shows "ulp64 c = of_int (2 ^ nat (max (binaryExponent c) (- 1022) - max (binaryExponent x) (- 1022)))
                    * ulp64 x"
proof -
  let ?ec = "max (binaryExponent c) (- 1022)" and ?ex = "max (binaryExponent x) (- 1022)"
  have "?ex \<le> ?ec" using binaryExponent_mono [OF assms] by simp
  then have d: "0 \<le> ?ec - ?ex" by simp
  have "(2::real) powi (?ec - 52) = 2 powi ((?ec - ?ex) + (?ex - 52))" by simp
  also have "\<dots> = 2 powi (?ec - ?ex) * 2 powi (?ex - 52)" by (rule power_int_add) simp
  also have "(2::real) powi (?ec - ?ex) = 2 ^ nat (?ec - ?ex)" using d by (simp add: power_int_def)
  finally show ?thesis by (simp add: ulp64_def)
qed

lemma round64_le:
  assumes "0 < c" and "c = of_int kc * ulp64 c" and "x \<le> c"
  shows "round64 x \<le> c"
proof (cases "x \<le> 0")
  case True
  then have "round64 x \<le> 0" by (rule round64_nonpos)
  with assms(1) show ?thesis by simp
next
  case False
  then have x: "x \<noteq> 0" "\<bar>x\<bar> \<le> \<bar>c\<bar>" using assms(3) by simp_all
  let ?d = "2 ^ nat (max (binaryExponent c) (- 1022) - max (binaryExponent x) (- 1022)) :: int"
  have c: "c = of_int (kc * ?d) * ulp64 x"
    using assms(2) ulp64_ratio [OF x] by simp
  have "x / ulp64 x \<le> c / ulp64 x" using assms(3) ulp64_pos [of x] by (simp add: divide_right_mono)
  also have "c / ulp64 x = of_int (kc * ?d)" using c ulp64_pos [of x] by (simp add: field_simps)
  finally have "roundHalfEven (x / ulp64 x) \<le> kc * ?d" by (rule roundHalfEven_le)
  then have "of_int (roundHalfEven (x / ulp64 x)) * ulp64 x \<le> of_int (kc * ?d) * ulp64 x"
    using ulp64_pos [of x] by (simp only: mult_le_cancel_right of_int_le_iff) simp
  then show ?thesis using x(1) c by (simp add: round64_def)
qed


lemma round64_ge_pow2:
  assumes "0 < x" and "- 1022 \<le> binaryExponent x"
  shows "2 powi binaryExponent x \<le> round64 x"
proof -
  let ?e = "binaryExponent x"
  have x: "x \<noteq> 0" using assms(1) by simp
  have u: "ulp64 x = 2 powi (?e - 52)" using assms(2) by (simp add: ulp64_def)
  have s: "(2::real) powi ?e = 2 powi 52 * 2 powi (?e - 52)"
    using power_int_add [of "2::real" 52 "?e - 52"] by simp
  have "2 powi ?e \<le> x" using binaryExponent_bounds(1) [OF x] assms(1) by simp
  then have "2 powi 52 * 2 powi (?e - 52) \<le> x" unfolding s .
  then have "2 powi 52 \<le> x / ulp64 x" unfolding u by (simp add: field_simps)
  moreover have "(2::real) powi 52 = of_int (2 ^ 52)" by simp
  ultimately have "of_int (2 ^ 52) \<le> x / ulp64 x" by simp
  then have "2 ^ 52 \<le> roundHalfEven (x / ulp64 x)" by (rule roundHalfEven_ge)
  then have "of_int (2 ^ 52) * ulp64 x \<le> of_int (roundHalfEven (x / ulp64 x)) * ulp64 x"
    using ulp64_pos [of x] by (simp only: mult_le_cancel_right of_int_le_iff) simp
  moreover have "of_int (2 ^ 52) * ulp64 x = 2 powi ?e" unfolding u s by simp
  ultimately show ?thesis using x by (simp add: round64_def)
qed

lemma round64_ge:
  assumes "0 < c" and "c = of_int kc * ulp64 c" and "c \<le> x"
  shows "c \<le> round64 x"
proof -
  have x: "x \<noteq> 0" "0 < x" using assms(1,3) by simp_all
  have c: "c \<noteq> 0" "\<bar>c\<bar> \<le> \<bar>x\<bar>" using assms(1,3) by simp_all
  let ?ec = "max (binaryExponent c) (- 1022)" and ?ex = "max (binaryExponent x) (- 1022)"
  have m: "binaryExponent c \<le> binaryExponent x" using c by (rule binaryExponent_mono)
  show ?thesis
  proof (cases "?ex = ?ec")
    case True
    then have u: "ulp64 x = ulp64 c" by (simp add: ulp64_def)
    have "c / ulp64 x \<le> x / ulp64 x" using assms(3) ulp64_pos [of x] by (simp add: divide_right_mono)
    moreover have "c / ulp64 x = of_int kc" using assms(2) ulp64_pos [of c] u by (simp add: field_simps)
    ultimately have "of_int kc \<le> x / ulp64 x" by simp
    then have "kc \<le> roundHalfEven (x / ulp64 x)" by (rule roundHalfEven_ge)
    then have "of_int kc * ulp64 x \<le> of_int (roundHalfEven (x / ulp64 x)) * ulp64 x"
      using ulp64_pos [of x] by (simp only: mult_le_cancel_right of_int_le_iff) simp
    then show ?thesis using x(1) assms(2) u by (simp add: round64_def)
  next
    case False
    with m have l: "binaryExponent c < binaryExponent x" and n: "- 1022 \<le> binaryExponent x"
      by auto
    from l have "binaryExponent c + 1 \<le> binaryExponent x" by simp
    then have "(2::real) powi (binaryExponent c + 1) \<le> 2 powi binaryExponent x"
      by (rule power_int_increasing) simp
    moreover have "c < 2 powi (binaryExponent c + 1)"
      using binaryExponent_bounds(2) [OF c(1)] assms(1) by simp
    ultimately have "c \<le> 2 powi binaryExponent x" by simp
    also have "\<dots> \<le> round64 x" using x(2) n by (rule round64_ge_pow2)
    finally show ?thesis .
  qed
qed

lemma round64_grain:
  assumes "2 powi k \<le> x"
  shows "\<exists>m. round64 x = of_int m * 2 powi (k - 52)"
proof -
  have p: "(0::real) < 2 powi k" by simp
  from p assms have x0: "0 < x" by (rule less_le_trans)
  then have x: "0 < x" "x \<noteq> 0" by simp_all
  let ?e = "max (binaryExponent x) (- 1022)"
  from assms binaryExponent_bounds(2) [OF x(2)] x(1)
  have "(2::real) powi k < 2 powi (binaryExponent x + 1)" by simp
  then have "k < binaryExponent x + 1" by (rule pow2_less_imp)
  then have d: "0 \<le> ?e - k" by simp
  have "(2::real) powi (?e - 52) = 2 powi ((?e - k) + (k - 52))" by simp
  also have "\<dots> = 2 powi (?e - k) * 2 powi (k - 52)" by (rule power_int_add) simp
  also have "(2::real) powi (?e - k) = of_int (2 ^ nat (?e - k))" using d by (simp add: power_int_def)
  finally have u: "ulp64 x = of_int (2 ^ nat (?e - k)) * 2 powi (k - 52)" by (simp add: ulp64_def)
  have "round64 x = of_int (roundHalfEven (x / ulp64 x) * 2 ^ nat (?e - k)) * 2 powi (k - 52)"
    using x(2) by (simp add: round64_def u [symmetric]) (simp add: u)
  then show ?thesis by (rule exI)
qed


lemma ulp64_values:
  "ulp64 20 = 2 powi (- 48)" "ulp64 32 = 2 powi (- 47)" "ulp64 64 = 2 powi (- 46)"
  by (simp_all add: ulp64_def binaryExponent_def bitLength.simps)

lemma round64_le_20: "x \<le> 20 \<Longrightarrow> round64 x \<le> 20"
  by (rule round64_le [where kc = "20 * 2 ^ 48"]) (simp_all add: ulp64_values)

lemma round64_le_64: "x \<le> 64 \<Longrightarrow> round64 x \<le> 64"
  by (rule round64_le [where kc = "2 ^ 52"]) (simp_all add: ulp64_values)

lemma round64_ge_32: "32 \<le> x \<Longrightarrow> 32 \<le> round64 x"
  by (rule round64_ge [where kc = "2 ^ 52"]) (simp_all add: ulp64_values)

lemma rise_test_exact:
  assumes "110 < round64 y2"
  shows "jsSub (round64 y2) (round64 y1) > 20 \<longleftrightarrow> round64 y2 - round64 y1 > 20"
proof
  assume a: "jsSub (round64 y2) (round64 y1) > 20"
  show "round64 y2 - round64 y1 > 20"
  proof (rule ccontr)
    assume "\<not> round64 y2 - round64 y1 > 20"
    then have "round64 y2 - round64 y1 \<le> 20" by simp
    then have "round64 (round64 y2 - round64 y1) \<le> 20" by (rule round64_le_20)
    with a show False by (simp add: jsSub_def)
  qed
next
  let ?x = "round64 y2 - round64 y1"
  assume x: "?x > 20"
  show "jsSub (round64 y2) (round64 y1) > 20"
  proof (cases "32 \<le> ?x")
    case True
    then have "32 \<le> round64 ?x" by (rule round64_ge_32)
    then show ?thesis by (simp add: jsSub_def)
  next
    case False
    then have x32: "?x < 32" by simp
    have y2: "64 \<le> y2"
    proof (rule ccontr)
      assume "\<not> 64 \<le> y2"
      then have "y2 \<le> 64" by simp
      then have "round64 y2 \<le> 64" by (rule round64_le_64)
      with assms show False by simp
    qed
    have y1: "64 \<le> y1"
    proof (rule ccontr)
      assume "\<not> 64 \<le> y1"
      then have "y1 \<le> 64" by simp
      then have "round64 y1 \<le> 64" by (rule round64_le_64)
      with assms x32 show False by simp
    qed
    have p: "(2::real) powi 6 = 64" by simp
    from y2 have "2 powi 6 \<le> y2" by (simp only: p)
    from round64_grain [OF this] obtain m2 where m2: "round64 y2 = of_int m2 * 2 powi (- 46)"
      by auto
    from y1 have "2 powi 6 \<le> y1" by (simp only: p)
    from round64_grain [OF this] obtain m1 where m1: "round64 y1 = of_int m1 * 2 powi (- 46)"
      by auto
    have d: "?x = of_int (m2 - m1) * 2 powi (- 46)" unfolding m1 m2 by (simp add: algebra_simps)
    have nz: "?x \<noteq> 0" using x by simp
    have "binaryExponent ?x = 4"
      using nz x x32 by (intro binaryExponent_eqI) simp_all
    then have u: "ulp64 ?x = 2 powi (- 48)" by (simp add: ulp64_def)
    have "?x / ulp64 ?x = of_int ((m2 - m1) * 4)"
      unfolding u unfolding d by (simp add: power_int_minus field_simps)
    then have "round64 ?x = ?x" by (rule round64_exact)
    with x show ?thesis by (simp add: jsSub_def)
  qed
qed


section \<open>Drop detection\<close>

lemma burstCount_dropBurst: "i \<le> 30 \<Longrightarrow> burstCount (dropBurst i rnd c) = 30 - i"
proof (induction i rnd c rule: dropBurst.induct)
  case (1 i rnd c)
  show ?case
  proof (cases "i < 30")
    case True
    with 1 have "burstCount (dropBurst (i + 1) rnd c) = 30 - (i + 1)" by simp
    with True show ?thesis
      by (subst dropBurst.simps) (simp add: Let_def burstCount_def)
  next
    case False
    with 1 have "i = 30" by simp
    then show ?thesis by (subst dropBurst.simps) (simp add: burstCount_def)
  qed
qed

lemma length_dropBurst: "i \<le> 30 \<Longrightarrow> length (dropBurst i rnd c) = 30 - i"
proof (induction i rnd c rule: dropBurst.induct)
  case (1 i rnd c)
  show ?case
  proof (cases "i < 30")
    case True
    with 1 have "length (dropBurst (i + 1) rnd c) = 30 - (i + 1)" by simp
    with True show ?thesis
      by (subst dropBurst.simps) (simp add: Let_def)
  next
    case False
    with 1 have "i = 30" by simp
    then show ?thesis by (subst dropBurst.simps) simp
  qed
qed

lemma musicDriver_lastBass:
  "lastBass (snd (musicDriver h m t dl rnd (Some d) s)) = bassAvg d"
  by (simp add: musicDriver_def Let_def)

lemma musicDriver_burstCount:
  "burstCount (fst (musicDriver h m t dl rnd (Some d) s))
     = (if bassAvg d > 110 \<and> jsSub (bassAvg d) (lastBass s) > 20 then 30 else 0)"
  using burstCount_dropBurst [of 0]
  by (simp add: musicDriver_def Let_def isDrop_def burstCount_def)

lemma musicDriver_length:
  "length (fst (musicDriver h m t dl rnd (Some d) s))
     = (if volAvg d > 2 then 1 else 0)
       + (if bassAvg d > 110 \<and> jsSub (bassAvg d) (lastBass s) > 20 then 30 else 0)"
  using length_dropBurst [of 0]
  by (simp add: musicDriver_def Let_def isDrop_def)

lemma bassAvg_take:
  assumes "15 \<le> length d"
  shows "bassAvg d = round64 ((\<Sum>w\<leftarrow>take 15 d. real (unat w)) / 15)"
proof -
  have l: "length (take 15 d) = 15" using assms by simp
  have "map (\<lambda>i. real (unat (d ! i))) [0..<15]
        = map (\<lambda>i. real (unat (take 15 d ! i))) [0..<15]"
    by (intro map_cong) simp_all
  also have "\<dots> = map (\<lambda>w. real (unat w)) (map (\<lambda>i. take 15 d ! i) [0..<length (take 15 d)])"
    unfolding l by (simp add: comp_def)
  also have "\<dots> = map (\<lambda>w. real (unat w)) (take 15 d)" by (simp only: map_nth)
  finally show ?thesis by (simp only: bassAvg_def jsDiv_def)
qed

lemma bassAvg_rise_exact:
  assumes "110 < bassAvg db"
  shows "jsSub (bassAvg db) (bassAvg da) > 20 \<longleftrightarrow> bassAvg db - bassAvg da > 20"
  using assms unfolding bassAvg_def jsDiv_def by (rule rise_test_exact)

lemma snapshot_has_128_bins:
  assumes "\<not> isInitialized s"
  shows "\<exists>s' d s''. init now s = Inr s' \<and> getAudioData sp s' = (Some d, s'') \<and> length d = 128"
  using assms
  by (simp add: init_def setInstrument_def Let_def getAudioData_def createBiquadFilter_def
      createGain_def createDelay_def)

text \<open>
  Claim C4.  Take two consecutive music-driver frames with snapshots \<open>da\<close>
  then \<open>db\<close> (128 bins each, as the audio service allocates them), whatever
  the other inputs are.  Their low-band averages are the numbers the driver
  computes, \<open>bassAvg da\<close> and \<open>bassAvg db\<close>: the binary64 quotients of the
  15-bin sums by 15.  The first frame stores its average in \<open>lastBass\<close>; the
  second frame emits 30 burst events if its average is above 110 and exceeds
  the first frame's by more than 20, and no burst event otherwise.  The
  difference may be taken exactly or as the program's rounded subtraction
  \<open>jsSub\<close>: for an average above 110 the two tests agree
  (\<open>bassAvg_rise_exact\<close>).  Besides the burst the frame emits only the trail
  event (when the overall average is above 2).  The evaluation below runs the
  sequences [50, 130] and [100, 115] from the initial state (burst counts 0
  then 30, and 0 then 0), and two snapshots with low-band sums 1624 and 1924,
  whose computed averages differ by slightly more than 20 (30 bursts).
\<close>

theorem drop_burst_iff_threshold_and_rise:
  assumes "length da = 128" and "length db = 128"
    and "ra = musicDriver ha ma ta dta rnda (Some da) s"
    and "rb = musicDriver hb mb tb dtb rndb (Some db) (snd ra)"
  shows "lastBass (snd ra) = bassAvg da
       \<and> burstCount (fst rb)
           = (if bassAvg db > 110 \<and> bassAvg db - bassAvg da > 20 then 30 else 0)
       \<and> burstCount (fst rb)
           = (if bassAvg db > 110 \<and> jsSub (bassAvg db) (bassAvg da) > 20 then 30 else 0)
       \<and> length (fst rb) = (if volAvg db > 2 then 1 else 0) + burstCount (fst rb)
       \<and> burstCount (fst ra)
           = (if bassAvg da > 110 \<and> jsSub (bassAvg da) (lastBass s) > 20 then 30 else 0)"
proof -
  have a: "lastBass (snd ra) = bassAvg da"
    unfolding assms(3) by (rule musicDriver_lastBass)
  have c: "burstCount (fst rb)
           = (if bassAvg db > 110 \<and> jsSub (bassAvg db) (bassAvg da) > 20 then 30 else 0)"
    unfolding assms(4) musicDriver_burstCount a ..
  have b: "burstCount (fst rb)
           = (if bassAvg db > 110 \<and> bassAvg db - bassAvg da > 20 then 30 else 0)"
    unfolding c using bassAvg_rise_exact [of db da] by auto
  have d: "length (fst rb) = (if volAvg db > 2 then 1 else 0) + burstCount (fst rb)"
    unfolding c unfolding assms(4) musicDriver_length a ..
  have e: "burstCount (fst ra)
           = (if bassAvg da > 110 \<and> jsSub (bassAvg da) (lastBass s) > 20 then 30 else 0)"
    unfolding assms(3) by (rule musicDriver_burstCount)
  show ?thesis by (intro conjI a b c d e)
qed


lemma round64_samples:
  "round64 50 = 50" "round64 130 = 130" "round64 100 = 100" "round64 115 = 115"
  "round64 (1624 / 15) = 7618589369635089 / 2 ^ 46"
  "round64 (1924 / 15) = 4512982126594185 / 2 ^ 45"
  by (simp_all add: round64_def ulp64_def binaryExponent_def bitLength.simps roundHalfEven_def)

lemma bassAvg_samples:
  "bassAvg (replicate 128 50) = 50" "bassAvg (replicate 128 130) = 130"
  "bassAvg (replicate 128 100) = 100" "bassAvg (replicate 128 115) = 115"
  "bassAvg (replicate 14 108 @ 112 # replicate 113 0) = 7618589369635089 / 2 ^ 46"
  "bassAvg (replicate 14 128 @ 132 # replicate 113 0) = 4512982126594185 / 2 ^ 45"
  by (simp_all add: bassAvg_take sum_list_replicate round64_samples)

theorem drop_burst_iff_threshold_and_rise_witness:
  "length (replicate 128 (50 :: 8 word)) = 128 \<and> length (replicate 128 (130 :: 8 word)) = 128
   \<and> length (replicate 128 (100 :: 8 word)) = 128 \<and> length (replicate 128 (115 :: 8 word)) = 128
   \<and> length (replicate 14 108 @ 112 # replicate 113 0 :: 8 word list) = 128
   \<and> length (replicate 14 128 @ 132 # replicate 113 0 :: 8 word list) = 128
   \<and> burstCount (fst (musicDriver Vec3 ignite 0 0.016 (\<lambda>n. 0) (Some (replicate 128 50)) (initialMusicState))) = 0
   \<and> burstCount (fst (musicDriver Vec3 ignite 0.016 0.016 (\<lambda>n. 0) (Some (replicate 128 130)) (snd (musicDriver Vec3 ignite 0 0.016 (\<lambda>n. 0) (Some (replicate 128 50)) (initialMusicState))))) = 30
   \<and> burstCount (fst (musicDriver Vec3 ignite 0 0.016 (\<lambda>n. 0) (Some (replicate 128 100)) (initialMusicState))) = 0
   \<and> burstCount (fst (musicDriver Vec3 ignite 0.016 0.016 (\<lambda>n. 0) (Some (replicate 128 115)) (snd (musicDriver Vec3 ignite 0 0.016 (\<lambda>n. 0) (Some (replicate 128 100)) (initialMusicState))))) = 0
   \<and> burstCount (fst (musicDriver Vec3 ignite 0.016 0.016 (\<lambda>n. 0) (Some (replicate 14 128 @ 132 # replicate 113 0)) (snd (musicDriver Vec3 ignite 0 0.016 (\<lambda>n. 0) (Some (replicate 14 108 @ 112 # replicate 113 0)) (initialMusicState))))) = 30"
proof -
  have l: "length (replicate 128 (w :: 8 word)) = 128" for w by simp
  have la: "length (replicate 14 108 @ 112 # replicate 113 0 :: 8 word list) = 128"
    and lb: "length (replicate 14 128 @ 132 # replicate 113 0 :: 8 word list) = 128"
    by simp_all
  have z: "lastBass initialMusicState = 0" by (simp add: initialMusicState_def)
  note a = drop_burst_iff_threshold_and_rise [where da = "replicate 128 50" and db = "replicate 128 130"
      and ha = Vec3 and hb = Vec3 and ma = ignite and mb = ignite and ta = 0 and tb = "0.016"
      and dta = "0.016" and dtb = "0.016" and rnda = "\<lambda>n. 0" and rndb = "\<lambda>n. 0"
      and s = initialMusicState, OF l l refl refl]
  note c = drop_burst_iff_threshold_and_rise [where da = "replicate 128 100" and db = "replicate 128 115"
      and ha = Vec3 and hb = Vec3 and ma = ignite and mb = ignite and ta = 0 and tb = "0.016"
      and dta = "0.016" and dtb = "0.016" and rnda = "\<lambda>n. 0" and rndb = "\<lambda>n. 0"
      and s = initialMusicState, OF l l refl refl]
  note e = drop_burst_iff_threshold_and_rise [where da = "replicate 14 108 @ 112 # replicate 113 0" and db = "replicate 14 128 @ 132 # replicate 113 0"
      and ha = Vec3 and hb = Vec3 and ma = ignite and mb = ignite and ta = 0 and tb = "0.016"
      and dta = "0.016" and dtb = "0.016" and rnda = "\<lambda>n. 0" and rndb = "\<lambda>n. 0"
      and s = initialMusicState, OF la lb refl refl]
  from a have a1: "burstCount (fst (musicDriver Vec3 ignite 0 0.016 (\<lambda>n. 0) (Some (replicate 128 50)) (initialMusicState))) = 0"
    and a2: "burstCount (fst (musicDriver Vec3 ignite 0.016 0.016 (\<lambda>n. 0) (Some (replicate 128 130)) (snd (musicDriver Vec3 ignite 0 0.016 (\<lambda>n. 0) (Some (replicate 128 50)) (initialMusicState))))) = 30"
    by (simp_all add: bassAvg_samples)
  from c have c1: "burstCount (fst (musicDriver Vec3 ignite 0 0.016 (\<lambda>n. 0) (Some (replicate 128 100)) (initialMusicState))) = 0"
    and c2: "burstCount (fst (musicDriver Vec3 ignite 0.016 0.016 (\<lambda>n. 0) (Some (replicate 128 115)) (snd (musicDriver Vec3 ignite 0 0.016 (\<lambda>n. 0) (Some (replicate 128 100)) (initialMusicState))))) = 0"
    by (simp_all add: bassAvg_samples)
  from e have e2: "burstCount (fst (musicDriver Vec3 ignite 0.016 0.016 (\<lambda>n. 0) (Some (replicate 14 128 @ 132 # replicate 113 0)) (snd (musicDriver Vec3 ignite 0 0.016 (\<lambda>n. 0) (Some (replicate 14 108 @ 112 # replicate 113 0)) (initialMusicState))))) = 30"
    by (simp add: bassAvg_samples)
  show ?thesis by (intro conjI l la lb a1 a2 c1 c2 e2)
qed

section \<open>The pointer driver\<close>

lemma dropBurst_no_pointer: "filter (\<lambda>e. fst e = Pointer) (dropBurst i rnd c) = []"
proof (induction i rnd c rule: dropBurst.induct)
  case (1 i rnd c)
  then show ?case
    by (subst dropBurst.simps) (simp add: Let_def)
qed

lemma ambienceLoop_no_pointer: "filter (\<lambda>e. fst e = Pointer) (fst (ambienceLoop m t i as)) = []"
  by (induction as arbitrary: i) (simp_all add: Let_def agentSplat_def)

lemma musicDriver_no_pointer:
  "filter (\<lambda>e. fst e = Pointer) (fst (musicDriver h m t dl rnd ad s)) = []"
  by (cases ad) (simp_all add: musicDriver_def Let_def dropBurst_no_pointer)

lemma automatedSplats_no_pointer:
  "filter (\<lambda>e. fst e = Pointer) (fst (automatedSplats inp w)) = []"
  by (simp add: automatedSplats_def musicBranch_def ambienceBranch_def ambienceDriver_def Let_def
      musicDriver_no_pointer ambienceLoop_no_pointer split: option.split)

lemma automatedSplats_pointerState:
  "pointerState (snd (automatedSplats inp w)) = pointerState w"
  by (simp add: automatedSplats_def musicBranch_def ambienceBranch_def Let_def split: option.split)

lemma pointerDriver_moved:
  assumes "moved p"
  shows "pointerDriver m t rVal cv p =
     \<lparr>pointerEvents =
        [(Pointer, \<lparr>sx = pointer_x p / fst cv, sy = pointer_y p / snd cv,
                    sdx = pointer_dx p * 5, sdy = pointer_dy p * 5,
                    scolor = pointerColor m t rVal,
                    sradius = 0.001 + min (sqrt (pointer_dx p * pointer_dx p
                                                 + pointer_dy p * pointer_dy p)) 100 * 0.00005\<rparr>)],
      pointerAfter = p\<lparr>moved := False, pointer_dx := 0, pointer_dy := 0\<rparr>,
      audioIntensity = min (sqrt (pointer_dx p * pointer_dx p + pointer_dy p * pointer_dy p) / 20) 1,
      interactSpeed = Some (sqrt (pointer_dx p * pointer_dx p + pointer_dy p * pointer_dy p))\<rparr>"
  using assms by (simp add: pointerDriver_def Let_def)

lemma pointerDriver_resting:
  assumes "\<not> moved p"
  shows "pointerDriver m t rVal cv p =
     \<lparr>pointerEvents = [], pointerAfter = p, audioIntensity = 0, interactSpeed = None\<rparr>"
  using assms by (simp add: pointerDriver_def)

lemma useFrame_Inr:
  assumes "useFrame inp w = Inr (evs, w')"
  shows "filter (\<lambda>e. fst e = Pointer) evs
           = pointerEvents (pointerDriver (in_mode inp) (in_elapsedTime inp)
               (in_rand inp (5 * burstCount (fst (automatedSplats inp w)))) (in_canvas inp)
               (pointerState w))"
    and "pointerState w'
           = pointerAfter (pointerDriver (in_mode inp) (in_elapsedTime inp)
               (in_rand inp (5 * burstCount (fst (automatedSplats inp w)))) (in_canvas inp)
               (pointerState w))"
proof -
  let ?pr = "pointerDriver (in_mode inp) (in_elapsedTime inp)
               (in_rand inp (5 * burstCount (fst (automatedSplats inp w)))) (in_canvas inp)
               (pointerState w)"
  have p: "filter (\<lambda>e. fst e = Pointer) (pointerEvents ?pr) = pointerEvents ?pr"
    by (simp add: pointerDriver_def Let_def)
  from assms have e: "evs = fst (automatedSplats inp w) @ pointerEvents ?pr"
    and s: "pointerState w' = pointerAfter ?pr"
    by (auto simp: useFrame_def Let_def automatedSplats_pointerState split: sum.splits)
  show "filter (\<lambda>e. fst e = Pointer) evs = pointerEvents ?pr"
    unfolding e by (simp only: filter_append automatedSplats_no_pointer p append_Nil)
  show "pointerState w' = pointerAfter ?pr" by (rule s)
qed


text \<open>
Claim C5.  In a frame that finds the \<open>moved\<close> flag set, exactly one forcing
  event comes from the pointer step: it lies at the pointer position divided
  by the canvas size and its force is the recorded delta times 5.  After the
  frame the flag is cleared and the stored delta is zero (the position is
  kept), so the next frame, with no pointer movement in between, emits no
  pointer event and leaves the pointer record as it is.  The witness moves
  the pointer by (10, 0) to the centre of an 800 by 600 canvas: one event at
  (0.5, 0.5) with force (50, 0), then none.
\<close>

theorem pointer_frame_one_event_then_none:
  assumes "moved (pointerState w)"
    and "useFrame inp w = Inr (evs, w')"
    and "useFrame inp2 w' = Inr (evs2, w2)"
  shows "filter (\<lambda>e. fst e = Pointer) evs
           = [(Pointer,
               \<lparr>sx = pointer_x (pointerState w) / fst (in_canvas inp),
                sy = pointer_y (pointerState w) / snd (in_canvas inp),
                sdx = pointer_dx (pointerState w) * 5,
                sdy = pointer_dy (pointerState w) * 5,
                scolor = pointerColor (in_mode inp) (in_elapsedTime inp)
                           (in_rand inp (5 * burstCount (fst (automatedSplats inp w)))),
                sradius = 0.001 + min (sqrt (pointer_dx (pointerState w) * pointer_dx (pointerState w)
                                   + pointer_dy (pointerState w) * pointer_dy (pointerState w))) 100
                                  * 0.00005\<rparr>)]
       \<and> pointerCount evs = 1
       \<and> pointerState w' = (pointerState w)\<lparr>moved := False, pointer_dx := 0, pointer_dy := 0\<rparr>
       \<and> pointerCount evs2 = 0
       \<and> pointerState w2 = pointerState w'"
proof -
  note f = useFrame_Inr [OF assms(2)]
  note d = pointerDriver_moved [OF assms(1)]
  have a: "filter (\<lambda>e. fst e = Pointer) evs
           = [(Pointer,
               \<lparr>sx = pointer_x (pointerState w) / fst (in_canvas inp),
                sy = pointer_y (pointerState w) / snd (in_canvas inp),
                sdx = pointer_dx (pointerState w) * 5,
                sdy = pointer_dy (pointerState w) * 5,
                scolor = pointerColor (in_mode inp) (in_elapsedTime inp)
                           (in_rand inp (5 * burstCount (fst (automatedSplats inp w)))),
                sradius = 0.001 + min (sqrt (pointer_dx (pointerState w) * pointer_dx (pointerState w)
                                   + pointer_dy (pointerState w) * pointer_dy (pointerState w))) 100
                                  * 0.00005\<rparr>)]"
    unfolding f(1) d by simp
  then have b: "pointerCount evs = 1" by (simp add: pointerCount_def)
  have c: "pointerState w' = (pointerState w)\<lparr>moved := False, pointer_dx := 0, pointer_dy := 0\<rparr>"
    unfolding f(2) d by simp
  then have r: "\<not> moved (pointerState w')" by simp
  note g = useFrame_Inr [OF assms(3)]
  have e: "pointerCount evs2 = 0"
    unfolding pointerCount_def g(1) pointerDriver_resting [OF r] by simp
  have h: "pointerState w2 = pointerState w'"
    unfolding g(2) pointerDriver_resting [OF r] by simp
  from a b c e h show ?thesis by (intro conjI)
qed


lemma useFrame_without_audio:
  assumes "ctx (audio w) = None" and "\<not> in_isMusicActive inp"
  shows "useFrame inp w = Inr (projr (useFrame inp w))"
    and "audio (snd (projr (useFrame inp w))) = audio w"
  using assms
  by (simp_all add: useFrame_def Let_def automatedSplats_def update_def)

theorem pointer_frame_one_event_then_none_witness:
  "moved (pointerState (startWorld (handleMove 400 300 (handleMove 390 300 initialPointer))))
   \<and> useFrame quietInput (startWorld (handleMove 400 300 (handleMove 390 300 initialPointer)))
       = Inr (projr (useFrame quietInput
                (startWorld (handleMove 400 300 (handleMove 390 300 initialPointer)))))
   \<and> useFrame quietInput
         (snd (projr (useFrame quietInput
                (startWorld (handleMove 400 300 (handleMove 390 300 initialPointer))))))
       = Inr (projr (useFrame quietInput
                (snd (projr (useFrame quietInput
                   (startWorld (handleMove 400 300 (handleMove 390 300 initialPointer))))))))
   \<and> map (\<lambda>e. (sx (snd e), sy (snd e), sdx (snd e), sdy (snd e)))
         (filter (\<lambda>e. fst e = Pointer)
            (fst (projr (useFrame quietInput
               (startWorld (handleMove 400 300 (handleMove 390 300 initialPointer)))))))
       = [(1 / 2, 1 / 2, 50, 0)]
   \<and> pointerCount (fst (projr (useFrame quietInput
         (snd (projr (useFrame quietInput
            (startWorld (handleMove 400 300 (handleMove 390 300 initialPointer))))))))) = 0"
proof -
  let ?w = "startWorld (handleMove 400 300 (handleMove 390 300 initialPointer))"
  have h1: "moved (pointerState ?w)"
    by (simp add: startWorld_def handleMove_def)
  have q: "\<not> in_isMusicActive quietInput" by (simp add: quietInput_def)
  have a0: "ctx (audio ?w) = None" by (simp add: startWorld_def audioService_def)
  note u = useFrame_without_audio [OF a0 q]
  have a1: "ctx (audio (snd (projr (useFrame quietInput ?w)))) = None"
    unfolding u(2) by (rule a0)
  note v = useFrame_without_audio [OF a1 q]
  have h2: "useFrame quietInput ?w
              = Inr (fst (projr (useFrame quietInput ?w)), snd (projr (useFrame quietInput ?w)))"
    using u(1) by simp
  have h3: "useFrame quietInput (snd (projr (useFrame quietInput ?w)))
              = Inr (fst (projr (useFrame quietInput (snd (projr (useFrame quietInput ?w))))),
                     snd (projr (useFrame quietInput (snd (projr (useFrame quietInput ?w))))))"
    using v(1) by simp
  note c = pointer_frame_one_event_then_none [OF h1 h2 h3]
  from c have c1: "map (\<lambda>e. (sx (snd e), sy (snd e), sdx (snd e), sdy (snd e)))
         (filter (\<lambda>e. fst e = Pointer) (fst (projr (useFrame quietInput ?w))))
       = [(1 / 2, 1 / 2, 50, 0)]"
    by (simp add: startWorld_def handleMove_def initialPointer_def quietInput_def)
  from c have c2: "pointerCount (fst (projr (useFrame quietInput
         (snd (projr (useFrame quietInput ?w)))))) = 0"
    by simp
  from h1 u(1) v(1) c1 c2 show ?thesis by (intro conjI)
qed

section \<open>Frames without frequency data\<close>

lemma getAudioData_no_analyser: "analyser a = None \<Longrightarrow> getAudioData sp a = (None, a)"
  by (simp add: getAudioData_def)

lemma getAudioData_null_unchanged: "fst (getAudioData sp a) = None \<Longrightarrow> snd (getAudioData sp a) = a"
  by (simp add: getAudioData_def Let_def split: option.splits)

text \<open>
Claim C8.  On a service with no analyser, \<open>getAudioData\<close> returns \<open>null\<close>
  (\<open>None\<close>) and changes nothing.  A music-driver run on a \<open>null\<close> snapshot
  emits no forcing event and returns its state (wanderer, last bass value,
  movement phase) as it was; so in a music frame whose snapshot is \<open>null\<close>
  the automated step of the frame emits nothing and leaves the whole state
  unchanged.
\<close>

theorem null_snapshot_emits_nothing:
  assumes "analyser a = None"
    and "fst (getAudioData (in_spectrum inp) (audio w)) = None"
    and "in_isMusicActive inp" and "in_ambienceMode inp = None"
  shows "getAudioData sp a = (None, a)
       \<and> musicDriver h m t dl rnd None st = ([], st)
       \<and> musicBranch inp w = ([], w)
       \<and> automatedSplats inp w = ([], w)"
proof -
  have b: "musicBranch inp w = ([], w)"
    using assms(2) getAudioData_null_unchanged [OF assms(2)]
    by (simp add: musicBranch_def Let_def musicDriver_def)
  moreover have "automatedSplats inp w = musicBranch inp w"
    using assms(3,4) by (simp add: automatedSplats_def)
  moreover have "musicDriver h m t dl rnd None st = ([], st)"
    by (simp add: musicDriver_def)
  ultimately show ?thesis
    using getAudioData_no_analyser [OF assms(1)] by simp
qed

theorem null_snapshot_emits_nothing_witness:
  "analyser audioService = None
   \<and> fst (getAudioData (in_spectrum (quietInput\<lparr>in_isMusicActive := True\<rparr>))
            (audio (startWorld initialPointer))) = None
   \<and> in_isMusicActive (quietInput\<lparr>in_isMusicActive := True\<rparr>)
   \<and> in_ambienceMode (quietInput\<lparr>in_isMusicActive := True\<rparr>) = None
   \<and> getAudioData (\<lambda>k. 0) audioService = (None, audioService)
   \<and> musicDriver Vec3 flux 0 0.016 (\<lambda>n. 0) None initialMusicState = ([], initialMusicState)
   \<and> automatedSplats (quietInput\<lparr>in_isMusicActive := True\<rparr>) (startWorld initialPointer)
       = ([], startWorld initialPointer)"
proof -
  have h1: "analyser audioService = None" by (simp add: audioService_def)
  have h2: "fst (getAudioData (in_spectrum (quietInput\<lparr>in_isMusicActive := True\<rparr>))
            (audio (startWorld initialPointer))) = None"
    by (simp add: getAudioData_def startWorld_def audioService_def)
  have h3: "in_isMusicActive (quietInput\<lparr>in_isMusicActive := True\<rparr>)" by simp
  have h4: "in_ambienceMode (quietInput\<lparr>in_isMusicActive := True\<rparr>) = None"
    by (simp add: quietInput_def)
  from null_snapshot_emits_nothing [OF h1 h2 h3 h4, of "\<lambda>k. 0" Vec3 flux 0 "0.016" "\<lambda>n. 0" initialMusicState]
    h1 h2 h3 h4
  show ?thesis by (intro conjI) simp_all
qed

section \<open>Ambience agents\<close>

lemma lissajous_inMargin:
  fixes u v :: real
  assumes "- 1 \<le> u" "u \<le> 1" "- 1 \<le> v" "v \<le> 1"
  shows "inMargin (0.5 + u * 0.35 + v * 0.20)"
proof -
  have "- 0.05 \<le> 0.5 + u * 0.35 + v * 0.20" using assms by (simp add: field_simps)
  moreover have "0.5 + u * 0.35 + v * 0.20 \<le> 1.05" using assms by (simp add: field_simps)
  ultimately show ?thesis unfolding inMargin_def by (rule conjI)
qed

lemma agentTx_inMargin: "inMargin (agentTx t a)"
  unfolding agentTx_def
  by (rule lissajous_inMargin) (rule sin_ge_minus_one sin_le_one)+

lemma agentTy_inMargin: "inMargin (agentTy t a)"
  unfolding agentTy_def
  by (rule lissajous_inMargin) (rule cos_ge_minus_one cos_le_one)+

lemma pursuit_inMargin:
  assumes "inMargin p" and "inMargin q"
  shows "inMargin (p + (q - p) * 0.015)"
proof -
  from assms have b: "- 0.05 \<le> p" "p \<le> 1.05" "- 0.05 \<le> q" "q \<le> 1.05"
    by (simp_all only: inMargin_def)
  have "- 0.05 \<le> p + (q - p) * 0.015" using b by (simp add: field_simps)
  moreover have "p + (q - p) * 0.015 \<le> 1.05" using b by (simp add: field_simps)
  ultimately show ?thesis unfolding inMargin_def by (rule conjI)
qed

lemma agentStep_inMargin:
  assumes "agentInMargin a"
  shows "agentInMargin (agentStep t a)"
proof -
  from assms have x: "inMargin (agent_x a)" and y: "inMargin (agent_y a)"
    by (simp_all add: agentInMargin_def)
  have "agent_x (agentStep t a) = agent_x a + (agentTx t a - agent_x a) * 0.015"
    and "agent_y (agentStep t a) = agent_y a + (agentTy t a - agent_y a) * 0.015"
    by (simp_all add: agentStep_def Let_def)
  then show ?thesis
    unfolding agentInMargin_def
    using pursuit_inMargin [OF x agentTx_inMargin] pursuit_inMargin [OF y agentTy_inMargin]
    by (simp only:)
qed

lemma ambienceLoop_agents: "snd (ambienceLoop m t i as) = map (agentStep t) as"
  by (induction as arbitrary: i) (simp_all add: Let_def)

lemma ambienceDriver_inMargin:
  "list_all agentInMargin as \<Longrightarrow> list_all agentInMargin (snd (ambienceDriver m t as))"
  by (simp add: ambienceDriver_def ambienceLoop_agents list_all_iff agentStep_inMargin)

lemma frames_inMargin:
  "list_all agentInMargin as
   \<Longrightarrow> list_all agentInMargin (foldl (\<lambda>ags t. snd (ambienceDriver m t ags)) as ts)"
  by (induction ts arbitrary: as) (simp_all add: ambienceDriver_inMargin)

lemma createAgent_inMargin:
  assumes "\<forall>n. 0 \<le> rnd n \<and> rnd n < 1"
  shows "agentInMargin (createAgent rnd k)"
proof -
  have "0 \<le> rnd (10 * k)" "rnd (10 * k) < 1" "0 \<le> rnd (10 * k + 1)" "rnd (10 * k + 1) < 1"
    using assms by simp_all
  then show ?thesis
    by (simp add: agentInMargin_def inMargin_def createAgent_def)
qed

lemma initialAgents_inMargin:
  assumes "\<forall>n. 0 \<le> rnd n \<and> rnd n < 1"
  shows "list_all agentInMargin (initialAgents rnd)"
  unfolding initialAgents_def list_all_iff using createAgent_inMargin [OF assms] by simp


text \<open>
Claim C9.  An agent's frame update moves each coordinate by 0.015 of the way
  to its target; each target coordinate is 0.5 plus two sine (or cosine)
  terms of amplitudes 0.35 and 0.20 and therefore lies between -0.05 and
  1.05; an agent whose coordinates lie in that interval keeps them there
  through the update.  The ambience driver applies the update to every agent,
  the initial agents (coordinates drawn by \<open>Math.random()\<close>, in [0, 1)) lie
  in the interval, and so do the agents after any sequence of frames.
\<close>

theorem ambience_agents_stay_in_margin:
  assumes "agentInMargin a" and "list_all agentInMargin as"
    and "\<forall>n. 0 \<le> rnd n \<and> rnd n < 1"
  shows "agent_x (agentStep t a) = agent_x a + 0.015 * (agentTx t a - agent_x a)
       \<and> agent_y (agentStep t a) = agent_y a + 0.015 * (agentTy t a - agent_y a)
       \<and> agentTx t a = 0.5 + sin (t * xf1 a + px1 a) * 0.35 + sin (t * xf2 a + px2 a) * 0.20
       \<and> agentTy t a = 0.5 + cos (t * yf1 a + py1 a) * 0.35 + cos (t * yf2 a + py2 a) * 0.20
       \<and> - 0.05 \<le> agentTx t a \<and> agentTx t a \<le> 1.05
       \<and> - 0.05 \<le> agentTy t a \<and> agentTy t a \<le> 1.05
       \<and> agentInMargin (agentStep t a)
       \<and> snd (ambienceDriver m t as) = map (agentStep t) as
       \<and> list_all agentInMargin (snd (ambienceDriver m t as))
       \<and> list_all agentInMargin (initialAgents rnd)
       \<and> list_all agentInMargin
             (foldl (\<lambda>ags t'. snd (ambienceDriver m t' ags)) (initialAgents rnd) ts)"
proof -
  have s: "agent_x (agentStep t a) = agent_x a + 0.015 * (agentTx t a - agent_x a)"
    "agent_y (agentStep t a) = agent_y a + 0.015 * (agentTy t a - agent_y a)"
    by (simp_all add: agentStep_def Let_def)
  have d: "agentTx t a = 0.5 + sin (t * xf1 a + px1 a) * 0.35 + sin (t * xf2 a + px2 a) * 0.20"
    "agentTy t a = 0.5 + cos (t * yf1 a + py1 a) * 0.35 + cos (t * yf2 a + py2 a) * 0.20"
    by (simp_all only: agentTx_def agentTy_def)
  have b: "- 0.05 \<le> agentTx t a" "agentTx t a \<le> 1.05"
    "- 0.05 \<le> agentTy t a" "agentTy t a \<le> 1.05"
    using agentTx_inMargin [of t a] agentTy_inMargin [of t a] by (simp_all only: inMargin_def)
  note i = initialAgents_inMargin [OF assms(3)]
  have l: "snd (ambienceDriver m t as) = map (agentStep t) as"
    by (simp add: ambienceDriver_def ambienceLoop_agents)
  show ?thesis
    by (intro conjI s d b agentStep_inMargin [OF assms(1)] l
        ambienceDriver_inMargin [OF assms(2)] i frames_inMargin [OF i])
qed

theorem ambience_agents_stay_in_margin_witness:
  "agentInMargin (createAgent (\<lambda>n. 0) 0)
   \<and> list_all agentInMargin (initialAgents (\<lambda>n. 0))
   \<and> (\<forall>n. (0::real) \<le> (\<lambda>n. 0) n \<and> (\<lambda>n. 0) n < (1::real))
   \<and> agent_x (agentStep 0 (createAgent (\<lambda>n. 0) 0)) = 3 / 400
   \<and> agentInMargin (agentStep 0 (createAgent (\<lambda>n. 0) 0))
   \<and> list_all agentInMargin
         (foldl (\<lambda>ags t'. snd (ambienceDriver ''forest'' t' ags)) (initialAgents (\<lambda>n. 0)) [0, 0.016])"
proof -
  have h3: "\<forall>n. (0::real) \<le> (\<lambda>n. 0) n \<and> (\<lambda>n. 0) n < (1::real)" by simp
  have h1: "agentInMargin (createAgent (\<lambda>n. 0) 0)"
    by (simp add: agentInMargin_def inMargin_def createAgent_def)
  have h2: "list_all agentInMargin (initialAgents (\<lambda>n. 0))"
    by (simp add: initialAgents_def list_all_iff agentInMargin_def inMargin_def createAgent_def)
  note c = ambience_agents_stay_in_margin [OF h1 h2 h3, of 0 "''forest''" "[0, 0.016]"]
  from c have x: "agent_x (agentStep 0 (createAgent (\<lambda>n. 0) 0)) = 3 / 400"
    by (simp add: createAgent_def)
  from c have y: "agentInMargin (agentStep 0 (createAgent (\<lambda>n. 0) 0))"
    and z: "list_all agentInMargin
         (foldl (\<lambda>ags t'. snd (ambienceDriver ''forest'' t' ags)) (initialAgents (\<lambda>n. 0)) [0, 0.016])"
    by blast+
  show ?thesis by (intro conjI h1 h2 h3 x y z)
qed

section \<open>Instrument presets\<close>

lemma setInstrument_ready:
  assumes "graphReady s"
  shows "\<exists>s'. setInstrument ty now s = Inr s' \<and> graphReady s'
            \<and> oscs s' = map (startOscillator now) (oscillators (INSTRUMENTS ty))
            \<and> currentType s' = ty"
  using assms by (auto simp: graphReady_def setInstrument_def Let_def)

lemma init_ready:
  assumes "\<not> isInitialized s"
  shows "\<exists>s'. init now s = Inr s' \<and> graphReady s'"
proof -
  let ?s = "s\<lparr>ctx := Some AudioContext,
                globalGain := Some \<lparr>gain = newParam (if isMuted s then 0 else masterVolume s)\<rparr>,
                analyser := Some \<lparr>fftSize = 256\<rparr>,
                dataArray := Some (replicate (256 div 2) 0),
                mainFilter := Some createBiquadFilter,
                mainGain := Some createGain,
                delayNode := Some createDelay,
                delayGain := Some createGain,
                delayFeedback := Some createGain,
                isInitialized := True\<rparr>"
  have "graphReady ?s" by (simp add: graphReady_def)
  from setInstrument_ready [OF this, of "currentType s" now] assms
  show ?thesis by (auto simp: init_def)
qed


lemma setInstrument_settings:
  assumes "graphReady s"
  shows "\<exists>s' flt mg dn df dg.
           setInstrument ty now s = Inr s' \<and> graphReady s' \<and> currentType s' = ty
         \<and> oscs s' = map (startOscillator now) (oscillators (INSTRUMENTS ty))
         \<and> mainFilter s' = Some flt \<and> biquad_type flt = filter_type (INSTRUMENTS ty)
         \<and> pvalue (biquad_Q flt) = filter_Q (INSTRUMENTS ty)
         \<and> last (events (biquad_frequency flt)) = SetValueAtTime (filter_baseFreq (INSTRUMENTS ty)) now
         \<and> mainGain s' = Some mg \<and> last (events (gain mg)) = SetValueAtTime 0 now
         \<and> delayNode s' = Some dn
         \<and> last (events (delayTime dn)) = SetValueAtTime (delay_time (INSTRUMENTS ty)) now
         \<and> delayFeedback s' = Some df
         \<and> last (events (gain df)) = SetValueAtTime (delay_feedback (INSTRUMENTS ty)) now
         \<and> delayGain s' = Some dg
         \<and> last (events (gain dg)) = SetValueAtTime (delay_mix (INSTRUMENTS ty)) now"
  using assms
  by (auto simp: graphReady_def setInstrument_def Let_def setValueAtTime_def)

lemma oscillatorBank_preset:
  assumes "oscs s = map (startOscillator now) (oscillators (INSTRUMENTS ty))"
  shows "oscillatorBank s
         = map (\<lambda>c. (cfg_type c, cfg_freq c, cfg_detune c)) (oscillators (INSTRUMENTS ty))"
  by (simp add: oscillatorBank_def assms startOscillator_def newParam_def comp_def)


text \<open>
Claim C6.  On an initialised engine, \<open>setInstrument A\<close>, \<open>setInstrument B\<close>,
  \<open>setInstrument A\<close> all succeed, and the oscillator bank after the third
  call has the waveforms, frequencies and detunes it had after the first:
  those of preset \<open>A\<close> in the table.  What the last call leaves is read off
  the table and the time of the call alone: the oscillators are fresh ones
  started at that time, the filter has the preset's type and Q, and the most
  recent automation event on the filter frequency, the main gain and the three
  delay parameters sets the preset's base frequency, silence, and the preset's
  delay time, feedback and mix at that time.
\<close>

theorem setInstrument_round_trip:
  assumes "graphReady s"
  shows "\<exists>sa sb sc flt mg dn df dg.
           setInstrument A ta s = Inr sa \<and> setInstrument B tb sa = Inr sb
         \<and> setInstrument A tc sb = Inr sc
         \<and> oscillatorBank sc = oscillatorBank sa
         \<and> oscillatorBank sa
             = map (\<lambda>c. (cfg_type c, cfg_freq c, cfg_detune c)) (oscillators (INSTRUMENTS A))
         \<and> oscs sc = map (startOscillator tc) (oscillators (INSTRUMENTS A))
         \<and> currentType sc = A
         \<and> mainFilter sc = Some flt \<and> biquad_type flt = filter_type (INSTRUMENTS A)
         \<and> pvalue (biquad_Q flt) = filter_Q (INSTRUMENTS A)
         \<and> last (events (biquad_frequency flt)) = SetValueAtTime (filter_baseFreq (INSTRUMENTS A)) tc
         \<and> mainGain sc = Some mg \<and> last (events (gain mg)) = SetValueAtTime 0 tc
         \<and> delayNode sc = Some dn
         \<and> last (events (delayTime dn)) = SetValueAtTime (delay_time (INSTRUMENTS A)) tc
         \<and> delayFeedback sc = Some df
         \<and> last (events (gain df)) = SetValueAtTime (delay_feedback (INSTRUMENTS A)) tc
         \<and> delayGain sc = Some dg
         \<and> last (events (gain dg)) = SetValueAtTime (delay_mix (INSTRUMENTS A)) tc"
proof -
  from setInstrument_settings [OF assms, of A ta]
  obtain sa where a: "setInstrument A ta s = Inr sa" "graphReady sa"
    "oscs sa = map (startOscillator ta) (oscillators (INSTRUMENTS A))"
    by blast
  from setInstrument_settings [OF a(2), of B tb]
  obtain sb where b: "setInstrument B tb sa = Inr sb" "graphReady sb"
    by blast
  from setInstrument_settings [OF b(2), of A tc]
  obtain sc flt mg dn df dg where c: "setInstrument A tc sb = Inr sc" "currentType sc = A"
    "oscs sc = map (startOscillator tc) (oscillators (INSTRUMENTS A))"
    "mainFilter sc = Some flt" "biquad_type flt = filter_type (INSTRUMENTS A)"
    "pvalue (biquad_Q flt) = filter_Q (INSTRUMENTS A)"
    "last (events (biquad_frequency flt)) = SetValueAtTime (filter_baseFreq (INSTRUMENTS A)) tc"
    "mainGain sc = Some mg" "last (events (gain mg)) = SetValueAtTime 0 tc"
    "delayNode sc = Some dn"
    "last (events (delayTime dn)) = SetValueAtTime (delay_time (INSTRUMENTS A)) tc"
    "delayFeedback sc = Some df"
    "last (events (gain df)) = SetValueAtTime (delay_feedback (INSTRUMENTS A)) tc"
    "delayGain sc = Some dg"
    "last (events (gain dg)) = SetValueAtTime (delay_mix (INSTRUMENTS A)) tc"
    by blast
  have ba: "oscillatorBank sa
             = map (\<lambda>c. (cfg_type c, cfg_freq c, cfg_detune c)) (oscillators (INSTRUMENTS A))"
    by (rule oscillatorBank_preset [OF a(3)])
  have bc: "oscillatorBank sc = oscillatorBank sa"
    unfolding ba by (rule oscillatorBank_preset [OF c(3)])
  show ?thesis
    by (intro exI conjI) (rule a(1) b(1) c bc ba)+
qed

theorem setInstrument_round_trip_witness:
  "graphReady (projr (init 0 audioService))
   \<and> (case setInstrument drone 1 (projr (init 0 audioService)) of
         Inl e \<Rightarrow> False
       | Inr sa \<Rightarrow>
          (case setInstrument spark 2 sa of
             Inl e \<Rightarrow> False
           | Inr sb \<Rightarrow>
              (case setInstrument drone 3 sb of
                 Inl e \<Rightarrow> False
               | Inr sc \<Rightarrow>
                   oscillatorBank sa = [(sawtooth, 65.41, 0), (sawtooth, 130.81, 8), (square, 98, - 8)]
                 \<and> oscillatorBank sc = [(sawtooth, 65.41, 0), (sawtooth, 130.81, 8), (square, 98, - 8)])))"
proof -
  have n: "\<not> isInitialized audioService" by (simp add: audioService_def)
  from init_ready [OF n, of 0] have h: "graphReady (projr (init 0 audioService))" by auto
  from setInstrument_round_trip [OF h, of drone 1 spark 2 3]
  obtain sa sb sc where r: "setInstrument drone 1 (projr (init 0 audioService)) = Inr sa"
    "setInstrument spark 2 sa = Inr sb" "setInstrument drone 3 sb = Inr sc"
    "oscillatorBank sc = oscillatorBank sa"
    "oscillatorBank sa
       = map (\<lambda>c. (cfg_type c, cfg_freq c, cfg_detune c)) (oscillators (INSTRUMENTS drone))"
    by blast
  have "oscillatorBank sa = [(sawtooth, 65.41, 0), (sawtooth, 130.81, 8), (square, 98, - 8)]"
    unfolding r(5) by (simp add: INSTRUMENTS_def)
  with r h show ?thesis by simp
qed

section \<open>Gain ramps of update\<close>

lemma wobble_ok:
  "i + length os \<le> length cfgs \<Longrightarrow> \<exists>os'. wobble cfgs amt now i os = Inr os' \<and> length os' = length os"
proof (induction os arbitrary: i)
  case Nil
  show ?case by simp
next
  case (Cons osc rest)
  then have "Suc i + length rest \<le> length cfgs" by simp
  from Cons.IH [OF this] obtain r where "wobble cfgs amt now (Suc i) rest = Inr r" "length r = length rest"
    by blast
  with Cons.prems show ?case by (simp add: Let_def)
qed

lemma preset_three_oscillators: "length (oscillators (INSTRUMENTS ty)) = 3"
  by (cases ty) (simp_all add: INSTRUMENTS_def)

lemma attack_le_release: "gain_attack (INSTRUMENTS ty) \<le> 0.5"
  by (cases ty) (simp_all add: INSTRUMENTS_def)

lemma attack_less_release: "ty \<noteq> orbit \<Longrightarrow> gain_attack (INSTRUMENTS ty) < 0.5"
  by (cases ty) (simp_all add: INSTRUMENTS_def)

lemma update_gain_event:
  assumes "graphReady s" and "length (oscs s) \<le> 3"
  shows "\<exists>s' mg mg'.
           update v now s = Inr s' \<and> mainGain s = Some mg \<and> mainGain s' = Some mg'
         \<and> events (gain mg')
             = events (gain mg)
               @ [SetTargetAtTime (targetGain (INSTRUMENTS (currentType s)) (min v 1.2)) now
                    (rampTime (INSTRUMENTS (currentType s)) (min v 1.2))]"
proof -
  from assms(1) obtain c flt mg where n: "ctx s = Some c" "mainFilter s = Some flt"
    "mainGain s = Some mg" "isInitialized s"
    by (auto simp: graphReady_def)
  have "0 + length (oscs s) \<le> length (oscillators (INSTRUMENTS (currentType s)))"
    using assms(2) by (simp add: preset_three_oscillators)
  from wobble_ok [OF this]
  obtain os' where w: "wobble (oscillators (INSTRUMENTS (currentType s))) (min v 1.2 * 10) now 0 (oscs s)
                        = Inr os'"
    by blast
  let ?mg = "mg\<lparr>gain := setTargetAtTime (targetGain (INSTRUMENTS (currentType s)) (min v 1.2)) now
                            (rampTime (INSTRUMENTS (currentType s)) (min v 1.2)) (gain mg)\<rparr>"
  let ?s = "s\<lparr>mainGain := Some ?mg,
              mainFilter := Some (flt\<lparr>biquad_frequency :=
                               setTargetAtTime (safeFreq (INSTRUMENTS (currentType s)) (min v 1.2)) now 0.2
                                 (biquad_frequency flt)\<rparr>),
              oscs := os'\<rparr>"
  have u: "update v now s = Inr ?s"
    using n w by (simp add: update_def Let_def)
  have g: "mainGain ?s = Some ?mg" by simp
  have e: "events (gain ?mg)
             = events (gain mg)
               @ [SetTargetAtTime (targetGain (INSTRUMENTS (currentType s)) (min v 1.2)) now
                    (rampTime (INSTRUMENTS (currentType s)) (min v 1.2))]"
    by (simp add: setTargetAtTime_def)
  show ?thesis
    by (intro exI conjI) (rule u n(3) g e)+
qed

text \<open>
Claim C7, as amended.  On an initialised engine \<open>update\<close> succeeds and
  schedules one more ramp on the main gain.  With \<open>intensity\<close> the argument
  capped at 1.2: if \<open>intensity\<close> exceeds 0.001 the ramp goes toward
  \<open>base + intensity * mod\<close> with the preset's attack time constant, otherwise
  toward 0 with time constant 0.5.  The release constant 0.5 is never smaller
  than the preset's attack constant: it is strictly larger for every preset
  but \<open>orbit\<close>, and equal to it for \<open>orbit\<close> (whose attack is 0.5), which is
  what \<open>release_equals_attack_for_orbit\<close> evaluates.
\<close>

theorem update_ramps_main_gain:
  assumes "graphReady s" and "length (oscs s) \<le> 3"
  shows "\<exists>s' mg mg'.
           update v now s = Inr s' \<and> mainGain s = Some mg \<and> mainGain s' = Some mg'
         \<and> events (gain mg')
             = events (gain mg)
               @ [SetTargetAtTime
                    (if min v 1.2 > 0.001
                     then gain_base (INSTRUMENTS (currentType s))
                          + min v 1.2 * gain_mod (INSTRUMENTS (currentType s))
                     else 0)
                    now
                    (if min v 1.2 > 0.001 then gain_attack (INSTRUMENTS (currentType s)) else 0.5)]
         \<and> gain_attack (INSTRUMENTS (currentType s)) \<le> 0.5
         \<and> (currentType s \<noteq> orbit \<longrightarrow> gain_attack (INSTRUMENTS (currentType s)) < 0.5)
         \<and> (currentType s = orbit \<longrightarrow> gain_attack (INSTRUMENTS (currentType s)) = 0.5)"
proof -
  from update_gain_event [OF assms, of v now]
  obtain s' mg mg' where u: "update v now s = Inr s'" "mainGain s = Some mg" "mainGain s' = Some mg'"
    "events (gain mg')
       = events (gain mg)
         @ [SetTargetAtTime (targetGain (INSTRUMENTS (currentType s)) (min v 1.2)) now
              (rampTime (INSTRUMENTS (currentType s)) (min v 1.2))]"
    by blast
  have e: "events (gain mg')
             = events (gain mg)
               @ [SetTargetAtTime
                    (if min v 1.2 > 0.001
                     then gain_base (INSTRUMENTS (currentType s))
                          + min v 1.2 * gain_mod (INSTRUMENTS (currentType s))
                     else 0)
                    now
                    (if min v 1.2 > 0.001 then gain_attack (INSTRUMENTS (currentType s)) else 0.5)]"
    unfolding u(4) by (simp add: targetGain_def rampTime_def isActive_def)
  have o: "currentType s = orbit \<longrightarrow> gain_attack (INSTRUMENTS (currentType s)) = 0.5"
    by (simp add: INSTRUMENTS_def)
  have l: "currentType s \<noteq> orbit \<longrightarrow> gain_attack (INSTRUMENTS (currentType s)) < 0.5"
    using attack_less_release by blast
  show ?thesis
    by (intro exI conjI) (rule u(1,2,3) e attack_le_release l o)+
qed

lemma ready_after_init_and_setInstrument:
  "\<exists>s. setInstrument ty t1 (projr (init t0 audioService)) = Inr s \<and> graphReady s
       \<and> length (oscs s) \<le> 3 \<and> currentType s = ty"
proof -
  have n: "\<not> isInitialized audioService" by (simp add: audioService_def)
  from init_ready [OF n, of t0] have h: "graphReady (projr (init t0 audioService))" by auto
  from setInstrument_settings [OF h, of ty t1] show ?thesis
    by (auto simp: preset_three_oscillators)
qed

theorem release_equals_attack_for_orbit:
  "(case update 0 1 (projr (setInstrument orbit 0 (projr (init 0 audioService)))) of
      Inl e \<Rightarrow> False
    | Inr s' \<Rightarrow> (case mainGain s' of
                   None \<Rightarrow> False
                 | Some g \<Rightarrow> last (events (gain g)) = SetTargetAtTime 0 1 0.5))
   \<and> (case update 1 1 (projr (setInstrument orbit 0 (projr (init 0 audioService)))) of
      Inl e \<Rightarrow> False
    | Inr s' \<Rightarrow> (case mainGain s' of
                   None \<Rightarrow> False
                 | Some g \<Rightarrow> last (events (gain g)) = SetTargetAtTime 0.45 1 0.5))
   \<and> rampTime (INSTRUMENTS orbit) 0 = 0.5
   \<and> rampTime (INSTRUMENTS orbit) 1 = gain_attack (INSTRUMENTS orbit)
   \<and> \<not> gain_attack (INSTRUMENTS orbit) < rampTime (INSTRUMENTS orbit) 0"
proof -
  let ?s = "projr (setInstrument orbit 0 (projr (init 0 audioService)))"
  from ready_after_init_and_setInstrument [of orbit 0 0]
  have r: "graphReady ?s" "length (oscs ?s) \<le> 3" "currentType ?s = orbit" by auto
  have t: "targetGain (INSTRUMENTS orbit) (min 0 1.2) = 0"
          "targetGain (INSTRUMENTS orbit) (min 1 1.2) = 0.45"
          "rampTime (INSTRUMENTS orbit) (min 0 1.2) = 0.5"
          "rampTime (INSTRUMENTS orbit) (min 1 1.2) = 0.5"
    by (simp_all add: targetGain_def rampTime_def isActive_def INSTRUMENTS_def)
  from update_gain_event [OF r(1,2), of 0 1]
  have a: "case update 0 1 ?s of
      Inl e \<Rightarrow> False
    | Inr s' \<Rightarrow> (case mainGain s' of
                   None \<Rightarrow> False
                 | Some g \<Rightarrow> last (events (gain g)) = SetTargetAtTime 0 1 0.5)"
    unfolding r(3) t by auto
  from update_gain_event [OF r(1,2), of 1 1]
  have b: "case update 1 1 ?s of
      Inl e \<Rightarrow> False
    | Inr s' \<Rightarrow> (case mainGain s' of
                   None \<Rightarrow> False
                 | Some g \<Rightarrow> last (events (gain g)) = SetTargetAtTime 0.45 1 0.5)"
    unfolding r(3) t by auto
  have c: "rampTime (INSTRUMENTS orbit) 0 = 0.5"
    "rampTime (INSTRUMENTS orbit) 1 = gain_attack (INSTRUMENTS orbit)"
    "\<not> gain_attack (INSTRUMENTS orbit) < rampTime (INSTRUMENTS orbit) 0"
    by (simp_all add: rampTime_def isActive_def INSTRUMENTS_def)
  show ?thesis by (intro conjI a b c)
qed

theorem update_ramps_main_gain_witness:
  "graphReady (projr (setInstrument flux_instrument 0 (projr (init 0 audioService))))
   \<and> length (oscs (projr (setInstrument flux_instrument 0 (projr (init 0 audioService))))) \<le> 3
   \<and> (case update 1 1 (projr (setInstrument flux_instrument 0 (projr (init 0 audioService)))) of
         Inl e \<Rightarrow> False
       | Inr s' \<Rightarrow> (case mainGain s' of
                      None \<Rightarrow> False
                    | Some g \<Rightarrow> last (events (gain g)) = SetTargetAtTime 0.4 1 0.3))
   \<and> (case update 0 1 (projr (setInstrument flux_instrument 0 (projr (init 0 audioService)))) of
         Inl e \<Rightarrow> False
       | Inr s' \<Rightarrow> (case mainGain s' of
                      None \<Rightarrow> False
                    | Some g \<Rightarrow> last (events (gain g)) = SetTargetAtTime 0 1 0.5))"
proof -
  let ?s = "projr (setInstrument flux_instrument 0 (projr (init 0 audioService)))"
  from ready_after_init_and_setInstrument [of flux_instrument 0 0]
  have r: "graphReady ?s" "length (oscs ?s) \<le> 3" "currentType ?s = flux_instrument" by auto
  from update_ramps_main_gain [OF r(1,2), of 1 1]
  have a: "case update 1 1 ?s of
         Inl e \<Rightarrow> False
       | Inr s' \<Rightarrow> (case mainGain s' of
                      None \<Rightarrow> False
                    | Some g \<Rightarrow> last (events (gain g)) = SetTargetAtTime 0.4 1 0.3)"
    unfolding r(3) by (auto simp: INSTRUMENTS_def)
  from update_ramps_main_gain [OF r(1,2), of 0 1]
  have b: "case update 0 1 ?s of
         Inl e \<Rightarrow> False
       | Inr s' \<Rightarrow> (case mainGain s' of
                      None \<Rightarrow> False
                    | Some g \<Rightarrow> last (events (gain g)) = SetTargetAtTime 0 1 0.5)"
    unfolding r(3) by (auto simp: INSTRUMENTS_def)
  show ?thesis by (intro conjI r(1,2) a b)
qed

section \<open>Master volume while muted\<close>

text \<open>
Claim C10.  On a muted engine with an output gain node,
  \<open>setMasterVolume v\<close> changes the field \<open>masterVolume\<close> and nothing else:
  no automation is added to the output gain, and the engine stays muted.  A
  following \<open>setMute(false)\<close> schedules one ramp of the output gain, toward
  \<open>v\<close>; after two volume changes it is toward the later one.  The witness
  mutes the initialised engine (the output gain is ramped to 0), sets the
  volume to 0.8 (the schedule is unchanged) and unmutes (a ramp to 0.8).
\<close>

theorem setMasterVolume_while_muted:
  assumes "isMuted s" and "globalGain s = Some g" and "ctx s = Some c"
  shows "setMasterVolume v t1 s = s\<lparr>masterVolume := v\<rparr>
       \<and> globalGain (setMasterVolume v t1 s) = Some g
       \<and> isMuted (setMasterVolume v t1 s)
       \<and> setMute False t2 (setMasterVolume v t1 s)
           = s\<lparr>masterVolume := v, isMuted := False,
               globalGain := Some (g\<lparr>gain := setTargetAtTime v t2 0.1 (gain g)\<rparr>)\<rparr>
       \<and> setMute False t3 (setMasterVolume v' t2 (setMasterVolume v t1 s))
           = s\<lparr>masterVolume := v', isMuted := False,
               globalGain := Some (g\<lparr>gain := setTargetAtTime v' t3 0.1 (gain g)\<rparr>)\<rparr>
       \<and> events (setTargetAtTime v t2 0.1 (gain g)) = events (gain g) @ [SetTargetAtTime v t2 0.1]"
  using assms
  by (simp add: setMasterVolume_def setMute_def Let_def setTargetAtTime_def)

theorem setMasterVolume_while_muted_witness:
  "isMuted (setMute True 1 (projr (init 0 audioService)))
   \<and> globalGain (setMute True 1 (projr (init 0 audioService)))
       = Some \<lparr>gain = \<lparr>pvalue = 0.5, events = [SetTargetAtTime 0 1 0.1]\<rparr>\<rparr>
   \<and> ctx (setMute True 1 (projr (init 0 audioService))) = Some AudioContext
   \<and> globalGain (setMasterVolume 0.8 2 (setMute True 1 (projr (init 0 audioService))))
       = Some \<lparr>gain = \<lparr>pvalue = 0.5, events = [SetTargetAtTime 0 1 0.1]\<rparr>\<rparr>
   \<and> masterVolume (setMasterVolume 0.8 2 (setMute True 1 (projr (init 0 audioService)))) = 0.8
   \<and> globalGain (setMute False 3 (setMasterVolume 0.8 2 (setMute True 1 (projr (init 0 audioService)))))
       = Some \<lparr>gain = \<lparr>pvalue = 0.5, events = [SetTargetAtTime 0 1 0.1, SetTargetAtTime 0.8 3 0.1]\<rparr>\<rparr>"
proof -
  let ?s = "setMute True 1 (projr (init 0 audioService))"
  have i: "projr (init 0 audioService)
           = projr (setInstrument flux_instrument 0
               (audioService\<lparr>ctx := Some AudioContext,
                  globalGain := Some \<lparr>gain = newParam 0.5\<rparr>,
                  analyser := Some \<lparr>fftSize = 256\<rparr>,
                  dataArray := Some (replicate (256 div 2) 0),
                  mainFilter := Some createBiquadFilter,
                  mainGain := Some createGain,
                  delayNode := Some createDelay,
                  delayGain := Some createGain,
                  delayFeedback := Some createGain,
                  isInitialized := True\<rparr>))"
    by (simp add: init_def audioService_def)
  have g: "globalGain (projr (init 0 audioService)) = Some \<lparr>gain = newParam 0.5\<rparr>"
    and c: "ctx (projr (init 0 audioService)) = Some AudioContext"
    unfolding i by (simp_all add: setInstrument_def Let_def audioService_def)
  have h1: "isMuted ?s" by (simp add: setMute_def Let_def split: option.split)
  have h2: "globalGain ?s = Some \<lparr>gain = \<lparr>pvalue = 0.5, events = [SetTargetAtTime 0 1 0.1]\<rparr>\<rparr>"
    using g c by (simp add: setMute_def Let_def setTargetAtTime_def newParam_def)
  have h3: "ctx ?s = Some AudioContext"
    using g c by (simp add: setMute_def Let_def)
  note t = setMasterVolume_while_muted [OF h1 h2 h3, of "0.8" 2 3]
  from t have a: "globalGain (setMasterVolume 0.8 2 ?s)
       = Some \<lparr>gain = \<lparr>pvalue = 0.5, events = [SetTargetAtTime 0 1 0.1]\<rparr>\<rparr>"
    by blast
  from t have b: "masterVolume (setMasterVolume 0.8 2 ?s) = 0.8" by simp
  from t have e: "setMute False 3 (setMasterVolume 0.8 2 ?s)
           = ?s\<lparr>masterVolume := 0.8, isMuted := False,
               globalGain := Some (\<lparr>gain = \<lparr>pvalue = 0.5, events = [SetTargetAtTime 0 1 0.1]\<rparr>\<rparr>
                                     \<lparr>gain := setTargetAtTime 0.8 3 0.1
                                        (gain \<lparr>gain = \<lparr>pvalue = 0.5, events = [SetTargetAtTime 0 1 0.1]\<rparr>\<rparr>)\<rparr>)\<rparr>"
    by blast
  have d: "globalGain (setMute False 3 (setMasterVolume 0.8 2 ?s))
       = Some \<lparr>gain = \<lparr>pvalue = 0.5, events = [SetTargetAtTime 0 1 0.1, SetTargetAtTime 0.8 3 0.1]\<rparr>\<rparr>"
    unfolding e by (simp add: setTargetAtTime_def)
  show ?thesis by (intro conjI h1 h2 h3 a b d)
qed

end
